theory Spec2Isabelle
  imports Main "HOL-Library.Char_ord" "HOL-Library.List_Lexorder"
begin

section \<open>Data model\<close>

text \<open>
  The two OCI Functions of the repository, \<^verbatim>\<open>scale-up-function/func.py\<close> and
  \<^verbatim>\<open>scale-down-function/func.py\<close>, are embedded as functions over an explicit
  trace of the calls they make to the outside world.  Logging is left out: it
  neither changes a result nor talks to a provider.  Where both files define a
  function of the same name (\<^verbatim>\<open>handler\<close>, \<^verbatim>\<open>get_config\<close>,
  \<^verbatim>\<open>get_instance_private_ip\<close>) the embedding prefixes it with \<open>up_\<close> or
  \<open>down_\<close>.
\<close>

subsection \<open>Exceptions\<close>

text \<open>
  What the SDK, the interpreter and the built-ins can raise: an
  \<^verbatim>\<open>oci.exceptions.ServiceError\<close> with its HTTP status and its text, or any other
  subclass of \<^verbatim>\<open>Exception\<close> with its text.
\<close>

datatype foreign_error = ServiceError int string | OtherError string

text \<open>
  An exception in flight is either one of those, or one raised by a
  \<^verbatim>\<open>raise Exception("...")\<close> statement of the repository itself.  The two handlers
  treat both alike (\<^verbatim>\<open>except Exception\<close>); the distinction only records who raised.
\<close>

datatype exn = Foreign foreign_error | Exception string

fun exn_str :: "exn \<Rightarrow> string" where
  "exn_str (Foreign (ServiceError st txt)) = txt"
| "exn_str (Foreign (OtherError txt)) = txt"
| "exn_str (Exception txt) = txt"

subsection \<open>Provider records\<close>

text \<open>
  A container instance as the SDK returns it.  \<open>time_created\<close> is an aware datetime,
  kept as microseconds since the epoch; \<open>vnics\<close> lists the \<^verbatim>\<open>vnic_id\<close> of each
  attachment (\<open>None\<close> when the attribute is unset).
\<close>

record container_instance =
  inst_id :: string
  display_name :: string
  lifecycle_state :: string
  time_created :: int
  vnics :: "string option list"

record resource =
  entity_type :: string
  resource_identifier :: string

subsection \<open>Calls to the outside world\<close>

datatype client = ContainerInstanceClient | LoadBalancerClient | VirtualNetworkClient

text \<open>
  Every interaction with the outside world, in the order the code performs it.
  \<open>ListContainerInstances\<close> carries the compartment, the \<^verbatim>\<open>lifecycle_state\<close> filter
  and the \<^verbatim>\<open>display_name\<close> filter.  Of the creation request only the display name is
  kept: the other fields are fixed by the configuration and never read back.
\<close>

datatype effect =
    GetSigner
  | NewClient client
  | ListContainerInstances "string option" "string option" "string option"
  | GetContainerInstance string
  | CreateContainerInstance string
  | GetWorkRequest string
  | DeleteContainerInstance string
  | GetVnic string
  | GetLoadBalancer "string option"
  | CreateBackendSet "string option" string
  | CreateBackend "string option" string string int
  | DeleteBackend "string option" string string
  | Sleep nat
  | ReadClock

text \<open>The calls that change the fleet or the load balancer.\<close>

fun is_mutation :: "effect \<Rightarrow> bool" where
  "is_mutation (CreateContainerInstance _) = True"
| "is_mutation (DeleteContainerInstance _) = True"
| "is_mutation (CreateBackendSet _ _) = True"
| "is_mutation (CreateBackend _ _ _ _) = True"
| "is_mutation (DeleteBackend _ _ _) = True"
| "is_mutation _ = False"

fun is_backend_call :: "effect \<Rightarrow> bool" where
  "is_backend_call (CreateBackendSet _ _) = True"
| "is_backend_call (CreateBackend _ _ _ _) = True"
| "is_backend_call (DeleteBackend _ _ _) = True"
| "is_backend_call _ = False"

text \<open>
  The outside world of one invocation.  Each response may depend on the number of
  interactions that came before it (the first argument), so a provider may answer the
  same request differently each time it is polled.  \<open>py_int\<close> is Python's \<^verbatim>\<open>int(str)\<close>;
  \<open>clock\<close> is the system clock in microseconds since the epoch.
\<close>

record world =
  environ :: "string \<Rightarrow> string option"
  py_int :: "string \<Rightarrow> foreign_error + int"
  signer_resp :: "nat \<Rightarrow> foreign_error + unit"
  client_resp :: "nat \<Rightarrow> client \<Rightarrow> foreign_error + unit"
  list_resp :: "nat \<Rightarrow> string option \<Rightarrow> string option \<Rightarrow> string option
                  \<Rightarrow> foreign_error + container_instance list"
  get_resp :: "nat \<Rightarrow> string \<Rightarrow> foreign_error + container_instance"
  create_resp :: "nat \<Rightarrow> string \<Rightarrow> foreign_error + string option"
  work_request_resp :: "nat \<Rightarrow> string \<Rightarrow> foreign_error + resource list"
  delete_resp :: "nat \<Rightarrow> string \<Rightarrow> foreign_error + unit"
  vnic_resp :: "nat \<Rightarrow> string \<Rightarrow> foreign_error + string option"
  lb_resp :: "nat \<Rightarrow> string option \<Rightarrow> foreign_error + string list"
  create_backend_set_resp :: "nat \<Rightarrow> string option \<Rightarrow> string \<Rightarrow> foreign_error + unit"
  create_backend_resp :: "nat \<Rightarrow> string option \<Rightarrow> string \<Rightarrow> string \<Rightarrow> int
                            \<Rightarrow> foreign_error + unit"
  delete_backend_resp :: "nat \<Rightarrow> string option \<Rightarrow> string \<Rightarrow> string
                            \<Rightarrow> foreign_error + unit"
  clock :: "nat \<Rightarrow> int"

subsection \<open>Computations\<close>

text \<open>
  A computation takes the trace so far and returns a value or an exception, with the
  trace extended by the calls it made.
\<close>

type_synonym 'a io = "effect list \<Rightarrow> (exn + 'a) \<times> effect list"

definition io_return :: "'a \<Rightarrow> 'a io" where
  "io_return x = (\<lambda>tr. (Inr x, tr))"

definition io_raise :: "exn \<Rightarrow> 'a io" where
  "io_raise e = (\<lambda>tr. (Inl e, tr))"

definition io_bind :: "'a io \<Rightarrow> ('a \<Rightarrow> 'b io) \<Rightarrow> 'b io" where
  "io_bind m f = (\<lambda>tr. case m tr of (Inl e, tr') \<Rightarrow> (Inl e, tr') | (Inr x, tr') \<Rightarrow> f x tr')"

text \<open>\<^verbatim>\<open>try: m  except Exception as e: h(e)\<close>\<close>

definition io_catch :: "'a io \<Rightarrow> (exn \<Rightarrow> 'a io) \<Rightarrow> 'a io" where
  "io_catch m h = (\<lambda>tr. case m tr of (Inl e, tr') \<Rightarrow> h e tr' | (Inr x, tr') \<Rightarrow> (Inr x, tr'))"

definition perform :: "effect \<Rightarrow> (nat \<Rightarrow> foreign_error + 'a) \<Rightarrow> 'a io" where
  "perform ef resp = (\<lambda>tr.
     ((case resp (length tr) of Inl e \<Rightarrow> Inl (Foreign e) | Inr x \<Rightarrow> Inr x), tr @ [ef]))"

definition sleep :: "nat \<Rightarrow> unit io" where
  "sleep n = perform (Sleep n) (\<lambda>_. Inr ())"

definition read_clock :: "world \<Rightarrow> int io" where
  "read_clock w = perform ReadClock (\<lambda>n. Inr (clock w n))"

subsection \<open>Python built-ins\<close>

definition startswith :: "string \<Rightarrow> string \<Rightarrow> bool" where
  "startswith s p = (take (length p) s = p)"

definition digit_char :: "nat \<Rightarrow> char" where
  "digit_char d = ''0123456789'' ! d"

fun str_nat :: "nat \<Rightarrow> string" where
  "str_nat n = (if n < 10 then [digit_char n] else str_nat (n div 10) @ [digit_char (n mod 10)])"

declare str_nat.simps [simp del]

text \<open>\<^verbatim>\<open>str(i)\<close> of an integer, as an f-string prints it.\<close>

definition str_int :: "int \<Rightarrow> string" where
  "str_int i = (if i < 0 then CHR ''-'' # str_nat (nat (- i)) else str_nat (nat i))"

text \<open>\<^verbatim>\<open>int(time.time())\<close>: whole seconds, truncated towards zero.\<close>

definition whole_seconds :: "int \<Rightarrow> int" where
  "whole_seconds us = (if 0 \<le> us then us div 1000000 else - ((- us) div 1000000))"

text \<open>
  \<^verbatim>\<open>max(xs, key=k)\<close> on a non-empty list \<open>x # xs\<close>: the first element whose key is
  largest.
\<close>

definition max_by :: "('a \<Rightarrow> int) \<Rightarrow> 'a \<Rightarrow> 'a list \<Rightarrow> 'a" where
  "max_by k x xs = foldl (\<lambda>best y. if k best < k y then y else best) x xs"

subsection \<open>Results\<close>

datatype status = Success | Skipped | Error

datatype pyval = PInt int | PStr string | PTime int

text \<open>
  The dictionary a handler returns: its \<^verbatim>\<open>status\<close> and \<^verbatim>\<open>message\<close> entries, and the
  remaining entries in order.  A \<^verbatim>\<open>timestamp\<close> entry keeps the clock reading that
  \<^verbatim>\<open>datetime.utcnow().isoformat()\<close> prints.
\<close>

record result =
  status :: status
  message :: string
  details :: "(string \<times> pyval) list"

section \<open>Configuration\<close>

text \<open>
  The entries of the scale-down \<^verbatim>\<open>get_config\<close>; the scale-up one has these and more.
  An entry read with \<^verbatim>\<open>os.environ.get(K)\<close> and no default may be \<open>None\<close>.
\<close>

record config =
  compartment_id :: "string option"
  subnet_id :: "string option"
  display_name_prefix :: string
  lb_ocid :: "string option"
  backend_set_name :: string
  app_port :: int
  max_instances :: int
  min_instances :: int

record up_config = config +
  availability_domain :: "string option"
  image_uri :: string
  container_name :: string
  memory_gb :: int
  ocpus :: int
  health_check_path :: string
  cooldown_seconds :: int
  ocir_username :: "string option"
  ocir_auth_token :: "string option"
  ocir_registry :: string

text \<open>\<^verbatim>\<open>os.environ.get(k, d)\<close>\<close>

definition env_get :: "world \<Rightarrow> string \<Rightarrow> string \<Rightarrow> string" where
  "env_get w k d = (case environ w k of None \<Rightarrow> d | Some v \<Rightarrow> v)"

text \<open>\<^verbatim>\<open>int(os.environ.get(k, d))\<close>, raising what \<^verbatim>\<open>int\<close> raises.\<close>

definition env_int :: "world \<Rightarrow> string \<Rightarrow> string \<Rightarrow> int io" where
  "env_int w k d = (case py_int w (env_get w k d) of
       Inl e \<Rightarrow> io_raise (Foreign e)
     | Inr i \<Rightarrow> io_return i)"

text \<open>
  \<^verbatim>\<open>os.environ.get("CONTAINER_IMAGE_URI") or os.environ.get("IMAGE_URI", default)\<close>:
  an unset or empty first variable falls through to the second.
\<close>

definition env_image_uri :: "world \<Rightarrow> string" where
  "env_image_uri w = (case environ w ''CONTAINER_IMAGE_URI'' of
       None \<Rightarrow> env_get w ''IMAGE_URI'' ''docker.io/dralquinta/ci-autoscaling:latest''
     | Some v \<Rightarrow> if v = [] then env_get w ''IMAGE_URI'' ''docker.io/dralquinta/ci-autoscaling:latest''
                else v)"

text \<open>scale-up \<^verbatim>\<open>get_config\<close>: the integers are parsed in the order of the dictionary.\<close>

definition up_get_config :: "world \<Rightarrow> up_config io" where
  "up_get_config w =
     io_bind (env_int w ''MEMORY_GB'' ''8'') (\<lambda>mem.
     io_bind (env_int w ''OCPUS'' ''1'') (\<lambda>cpus.
     io_bind (env_int w ''APP_PORT'' ''8080'') (\<lambda>port.
     io_bind (env_int w ''MAX_INSTANCES'' ''5'') (\<lambda>maxi.
     io_bind (env_int w ''MIN_INSTANCES'' ''1'') (\<lambda>mini.
     io_bind (env_int w ''COOLDOWN_SECONDS'' ''120'') (\<lambda>cool.
     io_return \<lparr>
       compartment_id = environ w ''COMPARTMENT_OCID'',
       subnet_id = environ w ''SUBNET_OCID'',
       display_name_prefix = env_get w ''DISPLAY_NAME_PREFIX'' ''autoscaling-demo-instance'',
       lb_ocid = environ w ''LB_OCID'',
       backend_set_name = env_get w ''BACKEND_SET_NAME'' ''autoscaling-demo-backend-set'',
       app_port = port,
       max_instances = maxi,
       min_instances = mini,
       availability_domain = environ w ''AD_NAME'',
       image_uri = env_image_uri w,
       container_name = env_get w ''CONTAINER_NAME'' ''autoscaling-demo'',
       memory_gb = mem,
       ocpus = cpus,
       health_check_path = env_get w ''HEALTH_CHECK_PATH'' ''/actuator/health'',
       cooldown_seconds = cool,
       ocir_username = environ w ''OCIR_USERNAME'',
       ocir_auth_token = environ w ''OCIR_AUTH_TOKEN'',
       ocir_registry = env_get w ''OCIR_REGISTRY'' ''sa-santiago-1.ocir.io'' \<rparr>))))))"

text \<open>scale-down \<^verbatim>\<open>get_config\<close>\<close>

definition down_get_config :: "world \<Rightarrow> config io" where
  "down_get_config w =
     io_bind (env_int w ''APP_PORT'' ''8080'') (\<lambda>port.
     io_bind (env_int w ''MAX_INSTANCES'' ''5'') (\<lambda>maxi.
     io_bind (env_int w ''MIN_INSTANCES'' ''1'') (\<lambda>mini.
     io_return \<lparr>
       compartment_id = environ w ''COMPARTMENT_OCID'',
       subnet_id = environ w ''SUBNET_OCID'',
       display_name_prefix = env_get w ''DISPLAY_NAME_PREFIX'' ''autoscaling-demo-instance'',
       lb_ocid = environ w ''LB_OCID'',
       backend_set_name = env_get w ''BACKEND_SET_NAME'' ''autoscaling-demo-backend-set'',
       app_port = port,
       max_instances = maxi,
       min_instances = mini \<rparr>)))"

text \<open>
  \<^verbatim>\<open>config['compartment_id'][:20]\<close> inside the first log line of both handlers: slicing
  \<open>None\<close> raises a \<^verbatim>\<open>TypeError\<close>.
\<close>

definition log_compartment :: "string option \<Rightarrow> unit io" where
  "log_compartment c = (case c of
       None \<Rightarrow> io_raise (Foreign (OtherError
                (CHR 0x27 # ''NoneType'' @ CHR 0x27 # '' object is not subscriptable'')))
     | Some _ \<Rightarrow> io_return ())"

text \<open>
  The signer and the three clients, built in this order by both handlers.
\<close>

definition init_clients :: "world \<Rightarrow> unit io" where
  "init_clients w =
     io_bind (perform GetSigner (signer_resp w)) (\<lambda>_.
     io_bind (perform (NewClient ContainerInstanceClient)
                (\<lambda>n. client_resp w n ContainerInstanceClient)) (\<lambda>_.
     io_bind (perform (NewClient LoadBalancerClient)
                (\<lambda>n. client_resp w n LoadBalancerClient)) (\<lambda>_.
     perform (NewClient VirtualNetworkClient)
                (\<lambda>n. client_resp w n VirtualNetworkClient))))"

section \<open>Scale-up function\<close>

subsection \<open>Inventory\<close>

definition matching :: "string \<Rightarrow> container_instance list \<Rightarrow> container_instance list" where
  "matching pre items = filter (\<lambda>inst. startswith (display_name inst) pre) items"

definition count_active_instances :: "world \<Rightarrow> up_config \<Rightarrow> nat io" where
  "count_active_instances w config =
     io_catch
       (io_bind (perform (ListContainerInstances (compartment_id config) (Some ''ACTIVE'') None)
                   (\<lambda>n. list_resp w n (compartment_id config) (Some ''ACTIVE'') None))
          (\<lambda>items. io_return (length (matching (display_name_prefix config) items))))
       (\<lambda>e. io_return 0)"

definition count_creating_instances :: "world \<Rightarrow> up_config \<Rightarrow> nat io" where
  "count_creating_instances w config =
     io_catch
       (io_bind (perform (ListContainerInstances (compartment_id config) (Some ''CREATING'') None)
                   (\<lambda>n. list_resp w n (compartment_id config) (Some ''CREATING'') None))
          (\<lambda>items. io_return (length (matching (display_name_prefix config) items))))
       (\<lambda>e. io_return 0)"

subsection \<open>Cooldown\<close>

text \<open>
  \<open>seconds_elapsed < cooldown_seconds\<close> compares a \<^verbatim>\<open>timedelta.total_seconds()\<close> with
  an integer; with the clock in microseconds the comparison is between integers.
\<close>

definition check_cooldown :: "world \<Rightarrow> up_config \<Rightarrow> bool io" where
  "check_cooldown w config =
     io_catch
       (io_bind (perform (ListContainerInstances (compartment_id config) None None)
                   (\<lambda>n. list_resp w n (compartment_id config) None None))
          (\<lambda>items.
             case matching (display_name_prefix config) items of
               [] \<Rightarrow> io_return True
             | x # xs \<Rightarrow>
                 io_bind (read_clock w) (\<lambda>now.
                   let most_recent = max_by time_created x xs;
                       elapsed = now - time_created most_recent
                   in if elapsed < cooldown_seconds config * 1000000
                      then io_return False
                      else io_return True)))
       (\<lambda>e. io_return True)"

subsection \<open>Instance creation\<close>

definition create_container_instance :: "world \<Rightarrow> up_config \<Rightarrow> string io" where
  "create_container_instance w config =
     io_bind (read_clock w) (\<lambda>now.
       let timestamp = whole_seconds now;
           name = display_name_prefix config @ ''-'' @ str_int timestamp;
           fallback =
             io_bind (sleep 15) (\<lambda>_.
             io_bind (perform (ListContainerInstances (compartment_id config) None (Some name))
                        (\<lambda>n. list_resp w n (compartment_id config) None (Some name)))
               (\<lambda>items. case items of
                    [] \<Rightarrow> io_raise (Exception ''Failed to retrieve container instance OCID'')
                  | first # _ \<Rightarrow> io_return (inst_id first)))
       in
       io_bind (perform (CreateContainerInstance name) (\<lambda>n. create_resp w n name))
         (\<lambda>work_request_id.
            case work_request_id of
              None \<Rightarrow> fallback
            | Some wr \<Rightarrow>
                if wr = [] then fallback
                else
                  io_bind (sleep 10) (\<lambda>_.
                  io_bind (perform (GetWorkRequest wr) (\<lambda>n. work_request_resp w n wr))
                    (\<lambda>resources.
                       case find (\<lambda>r. entity_type r = ''containerInstance'') resources of
                         Some r \<Rightarrow> io_return (resource_identifier r)
                       | None \<Rightarrow> fallback))))"

subsection \<open>Polling\<close>

text \<open>
  The \<^verbatim>\<open>while elapsed < max_wait\<close> loop of \<^verbatim>\<open>wait_for_instance_state\<close>, from a given
  \<open>elapsed\<close>.  One iteration: read the instance; return on the target state; on any
  other state, and on any exception of the read, sleep five seconds and go on.
\<close>

function wait_loop :: "world \<Rightarrow> string \<Rightarrow> string \<Rightarrow> int \<Rightarrow> int \<Rightarrow> bool io" where
  "wait_loop w instance_ocid target_state max_wait elapsed =
     (if elapsed < max_wait then
        io_bind
          (io_catch
             (io_bind (perform (GetContainerInstance instance_ocid)
                         (\<lambda>n. get_resp w n instance_ocid))
                (\<lambda>inst. io_return (lifecycle_state inst = target_state)))
             (\<lambda>e. io_return False))
          (\<lambda>reached.
             if reached then io_return True
             else io_bind (sleep 5)
                    (\<lambda>_. wait_loop w instance_ocid target_state max_wait (elapsed + 5)))
      else io_raise (Exception (''Timeout waiting for instance to reach '' @ target_state
                                  @ '' state'')))"
  by pat_completeness auto
termination
  by (relation "measure (\<lambda>(w, i, t, max_wait, elapsed). nat (max_wait - elapsed))") auto

declare wait_loop.simps [simp del]

definition wait_for_instance_state :: "world \<Rightarrow> string \<Rightarrow> string \<Rightarrow> int \<Rightarrow> bool io" where
  "wait_for_instance_state w instance_ocid target_state max_wait =
     wait_loop w instance_ocid target_state max_wait 0"

text \<open>
  One read of the private address, as in the \<^verbatim>\<open>try\<close> block of
  \<^verbatim>\<open>get_instance_private_ip\<close>: the first attachment of the instance, then its
  address; \<open>None\<close> when a step finds nothing (an empty list, an empty or unset string).
\<close>

definition read_private_ip :: "world \<Rightarrow> string \<Rightarrow> string option io" where
  "read_private_ip w instance_ocid =
     io_bind (perform (GetContainerInstance instance_ocid) (\<lambda>n. get_resp w n instance_ocid))
       (\<lambda>inst. case vnics inst of
            [] \<Rightarrow> io_return None
          | vnic_id # _ \<Rightarrow>
              (case vnic_id of
                 None \<Rightarrow> io_return None
               | Some v \<Rightarrow>
                   if v = [] then io_return None
                   else io_bind (perform (GetVnic v) (\<lambda>n. vnic_resp w n v))
                          (\<lambda>private_ip. case private_ip of
                               None \<Rightarrow> io_return None
                             | Some ip \<Rightarrow> if ip = [] then io_return None
                                         else io_return (Some ip))))"

function ip_loop :: "world \<Rightarrow> string \<Rightarrow> int \<Rightarrow> int \<Rightarrow> string io" where
  "ip_loop w instance_ocid max_wait elapsed =
     (if elapsed < max_wait then
        io_bind (io_catch (read_private_ip w instance_ocid) (\<lambda>e. io_return None))
          (\<lambda>found. case found of
               Some ip \<Rightarrow> io_return ip
             | None \<Rightarrow> io_bind (sleep 5) (\<lambda>_. ip_loop w instance_ocid max_wait (elapsed + 5)))
      else io_raise (Exception ''Failed to retrieve private IP address''))"
  by pat_completeness auto
termination
  by (relation "measure (\<lambda>(w, i, max_wait, elapsed). nat (max_wait - elapsed))") auto

declare ip_loop.simps [simp del]

definition up_get_instance_private_ip :: "world \<Rightarrow> string \<Rightarrow> string io" where
  "up_get_instance_private_ip w instance_ocid = ip_loop w instance_ocid 120 0"

subsection \<open>Load balancer\<close>

definition ensure_backend_set_exists :: "world \<Rightarrow> up_config \<Rightarrow> unit io" where
  "ensure_backend_set_exists w config =
     io_catch
       (io_bind (perform (GetLoadBalancer (lb_ocid config)) (\<lambda>n. lb_resp w n (lb_ocid config)))
          (\<lambda>backend_sets.
             if backend_set_name config \<in> set backend_sets then io_return ()
             else
               io_bind (perform (CreateBackendSet (lb_ocid config) (backend_set_name config))
                          (\<lambda>n. create_backend_set_resp w n (lb_ocid config)
                                  (backend_set_name config)))
                 (\<lambda>_. sleep 30)))
       (\<lambda>e. io_raise e)"

definition add_backend_to_lb :: "world \<Rightarrow> up_config \<Rightarrow> string \<Rightarrow> unit io" where
  "add_backend_to_lb w config private_ip =
     io_bind (perform (CreateBackend (lb_ocid config) (backend_set_name config) private_ip
                         (app_port config))
                (\<lambda>n. create_backend_resp w n (lb_ocid config) (backend_set_name config)
                        private_ip (app_port config)))
       (\<lambda>_. sleep 20)"

subsection \<open>Handler\<close>

text \<open>
  The handler's \<^verbatim>\<open>try\<close> block in two parts.  First part, up to the two counts: the
  event body is parsed and dropped (a parse failure is caught on the spot and the body
  is never read again), the configuration is loaded, the clients are built, and the
  inventory is read.
\<close>

definition up_inventory :: "world \<Rightarrow> (up_config \<times> nat \<times> nat) io" where
  "up_inventory w =
     io_bind (up_get_config w) (\<lambda>config.
     io_bind (log_compartment (compartment_id config)) (\<lambda>_.
     io_bind (init_clients w) (\<lambda>_.
     io_bind (count_active_instances w config) (\<lambda>current_count.
     io_bind (count_creating_instances w config) (\<lambda>creating_count.
     io_return (config, current_count, creating_count))))))"

text \<open>Second part: the three policy rules in order, then the scaling action.\<close>

definition up_scale :: "world \<Rightarrow> up_config \<Rightarrow> nat \<Rightarrow> nat \<Rightarrow> result io" where
  "up_scale w config current_count creating_count =
     (let total_count = current_count + creating_count in
      if int total_count \<ge> max_instances config then
        io_return \<lparr>
          status = Skipped,
          message = ''Already at maximum instances ('' @ str_int (max_instances config) @ '')'',
          details = [(''active_count'', PInt (int current_count)),
                     (''creating_count'', PInt (int creating_count)),
                     (''total_count'', PInt (int total_count))] \<rparr>
      else if creating_count > 0 then
        io_return \<lparr>
          status = Skipped,
          message = ''Scale-up already in progress ('' @ str_int (int creating_count)
                      @ '' instances being created)'',
          details = [(''active_count'', PInt (int current_count)),
                     (''creating_count'', PInt (int creating_count))] \<rparr>
      else
        io_bind (check_cooldown w config) (\<lambda>allowed.
          if \<not> allowed then
            io_return \<lparr>
              status = Skipped,
              message = ''Cooldown period active (2 minutes since last scale operation)'',
              details = [(''current_count'', PInt (int current_count))] \<rparr>
          else
            io_bind (create_container_instance w config) (\<lambda>instance_ocid.
            io_bind (wait_for_instance_state w instance_ocid ''ACTIVE'' 300) (\<lambda>_.
            io_bind (up_get_instance_private_ip w instance_ocid) (\<lambda>private_ip.
            io_bind (ensure_backend_set_exists w config) (\<lambda>_.
            io_bind (add_backend_to_lb w config private_ip) (\<lambda>_.
            io_bind (read_clock w) (\<lambda>now.
            io_return \<lparr>
              status = Success,
              message = ''Container instance scaled up successfully'',
              details = [(''instance_ocid'', PStr instance_ocid),
                         (''private_ip'', PStr private_ip),
                         (''total_instances'', PInt (int current_count + 1)),
                         (''timestamp'', PTime now)] \<rparr>))))))))"

definition up_handler_try :: "world \<Rightarrow> result io" where
  "up_handler_try w =
     io_bind (up_inventory w) (\<lambda>(config, current_count, creating_count).
       up_scale w config current_count creating_count)"

text \<open>The \<^verbatim>\<open>except Exception as e\<close> clause of both handlers.\<close>

definition error_result :: "world \<Rightarrow> exn \<Rightarrow> result io" where
  "error_result w e =
     io_bind (read_clock w) (\<lambda>now.
       io_return \<lparr> status = Error, message = exn_str e,
                   details = [(''timestamp'', PTime now)] \<rparr>)"

text \<open>\<^verbatim>\<open>handler\<close> of the scale-up function, run from the empty trace.\<close>

definition up_handler :: "world \<Rightarrow> (exn + result) \<times> effect list" where
  "up_handler w = io_catch (up_handler_try w) (error_result w) []"

section \<open>Scale-down function\<close>

subsection \<open>Inventory and victim selection\<close>

definition list_active_instances :: "world \<Rightarrow> config \<Rightarrow> container_instance list io" where
  "list_active_instances w config =
     io_catch
       (io_bind (perform (ListContainerInstances (compartment_id config) (Some ''ACTIVE'') None)
                   (\<lambda>n. list_resp w n (compartment_id config) (Some ''ACTIVE'') None))
          (\<lambda>items. io_return (matching (display_name_prefix config) items)))
       (\<lambda>e. io_return [])"

text \<open>
  \<^verbatim>\<open>sorted(instances, key=lambda x: x.time_created)[0]\<close>.  Python's \<^verbatim>\<open>sorted\<close> is
  stable, and so is \<open>sort_key\<close>.
\<close>

definition select_instance_for_removal :: "container_instance list \<Rightarrow> exn + container_instance" where
  "select_instance_for_removal instances =
     (if instances = [] then Inl (Exception ''No instances available for removal'')
      else case sort_key time_created instances of
             first # _ \<Rightarrow> Inr first
           | [] \<Rightarrow> Inl (Foreign (OtherError ''list index out of range'')))"

subsection \<open>Address, backend and instance removal\<close>

definition down_get_instance_private_ip :: "world \<Rightarrow> string \<Rightarrow> string io" where
  "down_get_instance_private_ip w instance_ocid =
     io_bind (io_catch (read_private_ip w instance_ocid) (\<lambda>e. io_return None))
       (\<lambda>found. case found of
            Some ip \<Rightarrow> io_return ip
          | None \<Rightarrow> io_raise (Exception ''Failed to retrieve private IP address''))"

definition remove_backend_from_lb :: "world \<Rightarrow> config \<Rightarrow> string \<Rightarrow> unit io" where
  "remove_backend_from_lb w config private_ip =
     (let backend_name = private_ip @ '':'' @ str_int (app_port config) in
      io_catch
        (io_bind (perform (DeleteBackend (lb_ocid config) (backend_set_name config) backend_name)
                    (\<lambda>n. delete_backend_resp w n (lb_ocid config) (backend_set_name config)
                            backend_name))
           (\<lambda>_. sleep 20))
        (\<lambda>e. case e of
             Foreign (ServiceError st txt) \<Rightarrow> if st = 404 then io_return () else io_raise e
           | _ \<Rightarrow> io_raise e))"

text \<open>
  The confirmation loop of \<^verbatim>\<open>delete_container_instance\<close>.  A \<open>DELETED\<close> state or a
  404 ends the function; any other \<^verbatim>\<open>ServiceError\<close> of the read is logged and the
  loop goes on; any other exception leaves the loop.
\<close>

function delete_loop :: "world \<Rightarrow> string \<Rightarrow> int \<Rightarrow> int \<Rightarrow> unit io" where
  "delete_loop w instance_ocid max_wait elapsed =
     (if elapsed < max_wait then
        io_bind
          (io_catch
             (io_bind (perform (GetContainerInstance instance_ocid)
                         (\<lambda>n. get_resp w n instance_ocid))
                (\<lambda>inst. io_return (lifecycle_state inst = ''DELETED'')))
             (\<lambda>e. case e of
                  Foreign (ServiceError st txt) \<Rightarrow>
                    if st = 404 then io_return True else io_return False
                | _ \<Rightarrow> io_raise e))
          (\<lambda>gone.
             if gone then io_return ()
             else io_bind (sleep 10) (\<lambda>_. delete_loop w instance_ocid max_wait (elapsed + 10)))
      else io_return ())"
  by pat_completeness auto
termination
  by (relation "measure (\<lambda>(w, i, max_wait, elapsed). nat (max_wait - elapsed))") auto

declare delete_loop.simps [simp del]

definition delete_container_instance :: "world \<Rightarrow> string \<Rightarrow> unit io" where
  "delete_container_instance w instance_ocid =
     io_catch
       (io_bind (perform (DeleteContainerInstance instance_ocid)
                   (\<lambda>n. delete_resp w n instance_ocid)) (\<lambda>_.
        io_bind (sleep 10) (\<lambda>_.
        delete_loop w instance_ocid 120 0)))
       (\<lambda>e. case e of
            Foreign (ServiceError st txt) \<Rightarrow> if st = 404 then io_return () else io_raise e
          | _ \<Rightarrow> io_raise e)"

subsection \<open>Handler\<close>

text \<open>First part of the \<^verbatim>\<open>try\<close> block, up to the list of active instances.\<close>

definition down_inventory :: "world \<Rightarrow> (config \<times> container_instance list) io" where
  "down_inventory w =
     io_bind (down_get_config w) (\<lambda>config.
     io_bind (log_compartment (compartment_id config)) (\<lambda>_.
     io_bind (init_clients w) (\<lambda>_.
     io_bind (list_active_instances w config) (\<lambda>instances.
     io_return (config, instances)))))"

text \<open>
  The best-effort \<^verbatim>\<open>try\<close> block around address resolution and backend removal: it
  yields the address, or \<^verbatim>\<open>"unknown"\<close> when either step raises.
\<close>

definition detach_backend :: "world \<Rightarrow> config \<Rightarrow> string \<Rightarrow> string io" where
  "detach_backend w config instance_ocid =
     io_catch
       (io_bind (down_get_instance_private_ip w instance_ocid) (\<lambda>private_ip.
        io_bind (remove_backend_from_lb w config private_ip) (\<lambda>_.
        io_return private_ip)))
       (\<lambda>e. io_return ''unknown'')"

text \<open>Second part: the minimum rule, victim selection, detachment and deletion.\<close>

definition down_scale :: "world \<Rightarrow> config \<Rightarrow> container_instance list \<Rightarrow> result io" where
  "down_scale w config instances =
     (if int (length instances) \<le> min_instances config then
        io_return \<lparr>
          status = Skipped,
          message = ''Already at minimum instances ('' @ str_int (min_instances config) @ '')'',
          details = [(''current_count'', PInt (int (length instances)))] \<rparr>
      else
        case select_instance_for_removal instances of
          Inl e \<Rightarrow> io_raise e
        | Inr instance_to_remove \<Rightarrow>
            io_bind (detach_backend w config (inst_id instance_to_remove)) (\<lambda>private_ip.
            io_bind (delete_container_instance w (inst_id instance_to_remove)) (\<lambda>_.
            io_bind (read_clock w) (\<lambda>now.
            io_return \<lparr>
              status = Success,
              message = ''Container instance scaled down successfully'',
              details = [(''instance_ocid'', PStr (inst_id instance_to_remove)),
                         (''instance_name'', PStr (display_name instance_to_remove)),
                         (''private_ip'', PStr private_ip),
                         (''total_instances'', PInt (int (length instances) - 1)),
                         (''timestamp'', PTime now)] \<rparr>))))"

definition down_handler_try :: "world \<Rightarrow> result io" where
  "down_handler_try w =
     io_bind (down_inventory w) (\<lambda>(config, instances). down_scale w config instances)"

text \<open>\<^verbatim>\<open>handler\<close> of the scale-down function, run from the empty trace.\<close>

definition down_handler :: "world \<Rightarrow> (exn + result) \<times> effect list" where
  "down_handler w = io_catch (down_handler_try w) (error_result w) []"

text \<open>
  What the invoker sees of a run: the status of the returned dictionary, or \<open>None\<close>
  when the handler raised instead of returning.
\<close>

definition outcome :: "(exn + result) \<times> effect list \<Rightarrow> status option" where
  "outcome run = (case fst run of Inl e \<Rightarrow> None | Inr r \<Rightarrow> Some (status r))"

text \<open>
  For stating what the polling of \<open>wait_for_instance_state\<close> does: whether the read
  of the instance made as interaction number \<open>n\<close> shows the target state (a read that
  raises shows nothing), and how many reads fit into \<open>max_wait\<close> seconds at one read
  every five seconds.
\<close>

definition shows_target :: "world \<Rightarrow> string \<Rightarrow> string \<Rightarrow> nat \<Rightarrow> bool" where
  "shows_target w instance_ocid target_state n =
     (case get_resp w n instance_ocid of
        Inl e \<Rightarrow> False
      | Inr inst \<Rightarrow> lifecycle_state inst = target_state)"

definition polls :: "int \<Rightarrow> nat" where
  "polls max_wait = nat ((max_wait + 4) div 5)"

text \<open>The reads still to come when the loop stands at \<open>elapsed\<close>.\<close>

definition remaining :: "int \<Rightarrow> int \<Rightarrow> nat" where
  "remaining max_wait elapsed = nat ((max_wait - elapsed + 4) div 5)"

section \<open>Trace growth\<close>

text \<open>A computation only ever appends to the trace.\<close>

definition extends :: "'a io \<Rightarrow> bool" where
  "extends m = (\<forall>tr. \<exists>more. snd (m tr) = tr @ more)"

section \<open>Sample worlds\<close>

text \<open>Concrete instances and worlds on which the theorems below are exercised.\<close>

definition inst_a :: container_instance where
  "inst_a = \<lparr> inst_id = ''ocid.a'', display_name = ''autoscaling-demo-instance-900'',
              lifecycle_state = ''ACTIVE'', time_created = 900000000, vnics = [] \<rparr>"

definition inst_b :: container_instance where
  "inst_b = \<lparr> inst_id = ''ocid.b'', display_name = ''autoscaling-demo-instance-900b'',
              lifecycle_state = ''ACTIVE'', time_created = 900000000, vnics = [] \<rparr>"

definition inst_c :: container_instance where
  "inst_c = \<lparr> inst_id = ''ocid.c'', display_name = ''autoscaling-demo-instance-880'',
              lifecycle_state = ''CREATING'', time_created = 880000000, vnics = [] \<rparr>"

definition sample_int :: "string \<Rightarrow> foreign_error + int" where
  "sample_int s =
     (if s = ''1'' then Inr 1 else if s = ''5'' then Inr 5 else if s = ''8'' then Inr 8
      else if s = ''120'' then Inr 120 else if s = ''8080'' then Inr 8080
      else Inl (OtherError ''invalid literal for int() with base 10''))"

text \<open>
  Only the compartment is set in the environment; the fleet is empty, no instance can
  be read (404), every other call succeeds, and the clock stands at 1000 seconds.
\<close>

definition calm_world :: world where
  "calm_world = \<lparr>
     environ = (\<lambda>k. if k = ''COMPARTMENT_OCID'' then Some ''ocid1.compartment'' else None),
     py_int = sample_int,
     signer_resp = (\<lambda>_. Inr ()),
     client_resp = (\<lambda>_ _. Inr ()),
     list_resp = (\<lambda>_ _ _ _. Inr []),
     get_resp = (\<lambda>_ _. Inl (ServiceError 404 ''NotAuthorizedOrNotFound'')),
     create_resp = (\<lambda>_ _. Inr None),
     work_request_resp = (\<lambda>_ _. Inr []),
     delete_resp = (\<lambda>_ _. Inr ()),
     vnic_resp = (\<lambda>_ _. Inr None),
     lb_resp = (\<lambda>_ _. Inr []),
     create_backend_set_resp = (\<lambda>_ _ _. Inr ()),
     create_backend_resp = (\<lambda>_ _ _ _ _. Inr ()),
     delete_backend_resp = (\<lambda>_ _ _ _. Inr ()),
     clock = (\<lambda>_. 1000000000) \<rparr>"

text \<open>The configurations both \<^verbatim>\<open>get_config\<close> functions load in \<open>calm_world\<close>.\<close>

definition calm_config :: config where
  "calm_config = \<lparr>
     compartment_id = Some ''ocid1.compartment'',
     subnet_id = None,
     display_name_prefix = ''autoscaling-demo-instance'',
     lb_ocid = None,
     backend_set_name = ''autoscaling-demo-backend-set'',
     app_port = 8080,
     max_instances = 5,
     min_instances = 1 \<rparr>"

definition calm_up_config :: up_config where
  "calm_up_config = \<lparr>
     compartment_id = Some ''ocid1.compartment'',
     subnet_id = None,
     display_name_prefix = ''autoscaling-demo-instance'',
     lb_ocid = None,
     backend_set_name = ''autoscaling-demo-backend-set'',
     app_port = 8080,
     max_instances = 5,
     min_instances = 1,
     availability_domain = None,
     image_uri = ''docker.io/dralquinta/ci-autoscaling:latest'',
     container_name = ''autoscaling-demo'',
     memory_gb = 8,
     ocpus = 1,
     health_check_path = ''/actuator/health'',
     cooldown_seconds = 120,
     ocir_username = None,
     ocir_auth_token = None,
     ocir_registry = ''sa-santiago-1.ocir.io'' \<rparr>"

text \<open>The five calls both handlers make up to their first listing.\<close>

definition inventory_trace :: "effect list" where
  "inventory_trace =
     [GetSigner, NewClient ContainerInstanceClient, NewClient LoadBalancerClient,
      NewClient VirtualNetworkClient,
      ListContainerInstances (Some ''ocid1.compartment'') (Some ''ACTIVE'') None]"

text \<open>Five active instances, the default maximum.\<close>

definition full_world :: world where
  "full_world = calm_world \<lparr> list_resp := (\<lambda>_ _ st _.
     if st = Some ''ACTIVE'' then Inr [inst_a, inst_b, inst_a, inst_b, inst_a] else Inr []) \<rparr>"

text \<open>One active instance, the default minimum.\<close>

definition single_world :: world where
  "single_world = calm_world \<lparr> list_resp := (\<lambda>_ _ st _.
     if st = Some ''ACTIVE'' then Inr [inst_a] else Inr []) \<rparr>"

text \<open>One active instance and one being created.\<close>

definition creating_world :: world where
  "creating_world = calm_world \<lparr> list_resp := (\<lambda>_ _ st _.
     if st = Some ''ACTIVE'' then Inr [inst_a]
     else if st = Some ''CREATING'' then Inr [inst_c] else Inr [inst_a, inst_c]) \<rparr>"




text \<open>An instance that stays in \<open>CREATING\<close>, and one that is \<open>ACTIVE\<close> at once.\<close>

definition stuck_world :: world where
  "stuck_world = calm_world \<lparr> get_resp := (\<lambda>_ _. Inr inst_c) \<rparr>"

definition ready_world :: world where
  "ready_world = calm_world \<lparr> get_resp := (\<lambda>_ _. Inr inst_a) \<rparr>"

text \<open>An instance that is \<open>CREATING\<close> at the first read and \<open>ACTIVE\<close> from the second.\<close>

definition late_world :: world where
  "late_world = calm_world \<lparr> get_resp := (\<lambda>n _.
     if n < 2 then Inr inst_c else Inr (inst_c \<lparr> lifecycle_state := ''ACTIVE'' \<rparr>)) \<rparr>"

text \<open>No resource principal: the signer cannot be built.\<close>

definition unsigned_world :: world where
  "unsigned_world = calm_world \<lparr> signer_resp := (\<lambda>_.
     Inl (OtherError ''Resource principals not available'')) \<rparr>"

text \<open>Backend and instance are already gone; and a provider that fails on both.\<close>

definition gone_world :: world where
  "gone_world = calm_world \<lparr>
     delete_resp := (\<lambda>_ _. Inl (ServiceError 404 ''NotAuthorizedOrNotFound'')),
     delete_backend_resp := (\<lambda>_ _ _ _. Inl (ServiceError 404 ''NotFound'')) \<rparr>"

definition broken_world :: world where
  "broken_world = calm_world \<lparr>
     delete_resp := (\<lambda>_ _. Inl (ServiceError 500 ''InternalServerError'')),
     delete_backend_resp := (\<lambda>_ _ _ _. Inl (ServiceError 500 ''InternalServerError'')) \<rparr>"

text \<open>
  Two active instances whose address cannot be resolved (the read of the instance
  fails); in the second world the deletion fails as well.
\<close>

definition pair_world :: world where
  "pair_world = calm_world \<lparr> list_resp := (\<lambda>_ _ st _.
     if st = Some ''ACTIVE'' then Inr [inst_b, inst_a] else Inr []) \<rparr>"

definition pair_undeletable_world :: world where
  "pair_undeletable_world = pair_world \<lparr>
     delete_resp := (\<lambda>_ _. Inl (ServiceError 500 ''InternalServerError'')) \<rparr>"

section \<open>Proof tools\<close>

lemmas io_defs = io_return_def io_raise_def io_bind_def io_catch_def perform_def sleep_def
  read_clock_def

lemmas sample_defs = calm_world_def calm_config_def calm_up_config_def inventory_trace_def
  sample_int_def inst_a_def inst_b_def inst_c_def

lemmas config_defs = up_get_config_def down_get_config_def env_int_def env_get_def
  env_image_uri_def log_compartment_def init_clients_def

section \<open>Removal of what is already gone\<close>

text \<open>
  Claim C8.  When the provider answers the removal of a backend, or the deletion of a
  container instance, with a \<^verbatim>\<open>ServiceError\<close>, the operation returns normally if the
  status is 404 and raises that same error again for any other status.  In both cases
  the one provider call is all that was made.
\<close>

theorem removal_idempotent:
  "(delete_backend_resp w (length tr) (lb_ocid config) (backend_set_name config)
        (private_ip @ '':'' @ str_int (app_port config)) = Inl (ServiceError st txt) \<longrightarrow>
      remove_backend_from_lb w config private_ip tr =
        ((if st = 404 then Inr () else Inl (Foreign (ServiceError st txt))),
         tr @ [DeleteBackend (lb_ocid config) (backend_set_name config)
                 (private_ip @ '':'' @ str_int (app_port config))]))
   \<and> (delete_resp w (length tr) instance_ocid = Inl (ServiceError st txt) \<longrightarrow>
      delete_container_instance w instance_ocid tr =
        ((if st = 404 then Inr () else Inl (Foreign (ServiceError st txt))),
         tr @ [DeleteContainerInstance instance_ocid]))"
  by (simp add: remove_backend_from_lb_def delete_container_instance_def io_defs Let_def)

theorem removal_idempotent_witness:
  "remove_backend_from_lb gone_world calm_config ''10.0.0.7'' [] =
     (Inr (), [DeleteBackend None ''autoscaling-demo-backend-set'' ''10.0.0.7:8080''])
   \<and> delete_container_instance gone_world ''ocid.a'' [] =
     (Inr (), [DeleteContainerInstance ''ocid.a''])
   \<and> remove_backend_from_lb broken_world calm_config ''10.0.0.7'' [] =
     (Inl (Foreign (ServiceError 500 ''InternalServerError'')),
      [DeleteBackend None ''autoscaling-demo-backend-set'' ''10.0.0.7:8080''])
   \<and> delete_container_instance broken_world ''ocid.a'' [] =
     (Inl (Foreign (ServiceError 500 ''InternalServerError'')),
      [DeleteContainerInstance ''ocid.a''])"
proof -
  have port: "str_int 8080 = ''8080''"
    by (simp add: str_int_def str_nat.simps digit_char_def)
  have gone_backend: "delete_backend_resp gone_world (length ([]::effect list))
      (lb_ocid calm_config) (backend_set_name calm_config)
      (''10.0.0.7'' @ '':'' @ str_int (app_port calm_config))
      = Inl (ServiceError 404 ''NotFound'')"
    by (simp add: gone_world_def sample_defs)
  have gone_instance: "delete_resp gone_world (length ([]::effect list)) ''ocid.a''
      = Inl (ServiceError 404 ''NotAuthorizedOrNotFound'')"
    by (simp add: gone_world_def sample_defs)
  have broken_backend: "delete_backend_resp broken_world (length ([]::effect list))
      (lb_ocid calm_config) (backend_set_name calm_config)
      (''10.0.0.7'' @ '':'' @ str_int (app_port calm_config))
      = Inl (ServiceError 500 ''InternalServerError'')"
    by (simp add: broken_world_def sample_defs)
  have broken_instance: "delete_resp broken_world (length ([]::effect list)) ''ocid.a''
      = Inl (ServiceError 500 ''InternalServerError'')"
    by (simp add: broken_world_def sample_defs)
  from removal_idempotent [of gone_world "[]" calm_config "''10.0.0.7''" 404 "''NotFound''"
      "''ocid.a''"]
    removal_idempotent [of gone_world "[]" calm_config "''10.0.0.7''" 404
      "''NotAuthorizedOrNotFound''" "''ocid.a''"]
    removal_idempotent [of broken_world "[]" calm_config "''10.0.0.7''" 500
      "''InternalServerError''" "''ocid.a''"]
    gone_backend gone_instance broken_backend broken_instance
  show ?thesis
    by (simp add: calm_config_def port)
qed

section \<open>The inventory phase\<close>

text \<open>
  Loading the configuration makes no call; building the clients makes four; each
  listing makes one and never raises.
\<close>

lemma env_int_pure: "env_int w k d tr = (r, tr') \<Longrightarrow> tr' = tr"
  by (auto simp: env_int_def io_defs split: sum.splits)

lemma up_get_config_pure: "up_get_config w tr = (r, tr') \<Longrightarrow> tr' = tr"
  unfolding up_get_config_def io_bind_def io_return_def
  by (auto split: sum.splits prod.splits dest!: env_int_pure)

lemma down_get_config_pure: "down_get_config w tr = (r, tr') \<Longrightarrow> tr' = tr"
  unfolding down_get_config_def io_bind_def io_return_def
  by (auto split: sum.splits prod.splits dest!: env_int_pure)

lemma log_compartment_pure: "log_compartment c tr = (r, tr') \<Longrightarrow> tr' = tr"
  by (auto simp: log_compartment_def io_defs split: option.splits)

lemma init_clients_trace:
  "init_clients w tr = (Inr x, tr') \<Longrightarrow>
     tr' = tr @ [GetSigner, NewClient ContainerInstanceClient, NewClient LoadBalancerClient,
                 NewClient VirtualNetworkClient]"
  by (auto simp: init_clients_def io_defs split: sum.splits)

lemma count_active_instances_run:
  "count_active_instances w config tr =
     (Inr (case list_resp w (length tr) (compartment_id config) (Some ''ACTIVE'') None of
             Inl e \<Rightarrow> 0
           | Inr items \<Rightarrow> length (matching (display_name_prefix config) items)),
      tr @ [ListContainerInstances (compartment_id config) (Some ''ACTIVE'') None])"
  by (simp add: count_active_instances_def io_defs split: sum.splits)

lemma count_creating_instances_run:
  "count_creating_instances w config tr =
     (Inr (case list_resp w (length tr) (compartment_id config) (Some ''CREATING'') None of
             Inl e \<Rightarrow> 0
           | Inr items \<Rightarrow> length (matching (display_name_prefix config) items)),
      tr @ [ListContainerInstances (compartment_id config) (Some ''CREATING'') None])"
  by (simp add: count_creating_instances_def io_defs split: sum.splits)

lemma list_active_instances_run:
  "list_active_instances w config tr =
     (Inr (case list_resp w (length tr) (compartment_id config) (Some ''ACTIVE'') None of
             Inl e \<Rightarrow> []
           | Inr items \<Rightarrow> matching (display_name_prefix config) items),
      tr @ [ListContainerInstances (compartment_id config) (Some ''ACTIVE'') None])"
  by (simp add: list_active_instances_def io_defs split: sum.splits)

lemma up_inventory_trace:
  assumes "up_inventory w [] = (Inr (config, current_count, creating_count), tr)"
  shows "tr = [GetSigner, NewClient ContainerInstanceClient, NewClient LoadBalancerClient,
               NewClient VirtualNetworkClient,
               ListContainerInstances (compartment_id config) (Some ''ACTIVE'') None,
               ListContainerInstances (compartment_id config) (Some ''CREATING'') None]"
    and "current_count =
      (case list_resp w 4 (compartment_id config) (Some ''ACTIVE'') None of
             Inl e \<Rightarrow> 0
           | Inr items \<Rightarrow> length (matching (display_name_prefix config) items))"
    and "creating_count =
      (case list_resp w 5 (compartment_id config) (Some ''CREATING'') None of
             Inl e \<Rightarrow> 0
           | Inr items \<Rightarrow> length (matching (display_name_prefix config) items))"
  using assms
  unfolding up_inventory_def io_bind_def io_return_def
  by (auto split: sum.splits prod.splits
      simp: count_active_instances_run count_creating_instances_run eval_nat_numeral
      dest!: up_get_config_pure log_compartment_pure init_clients_trace)

lemma down_inventory_trace:
  assumes "down_inventory w [] = (Inr (config, instances), tr)"
  shows "tr = [GetSigner, NewClient ContainerInstanceClient, NewClient LoadBalancerClient,
               NewClient VirtualNetworkClient,
               ListContainerInstances (compartment_id config) (Some ''ACTIVE'') None]"
    and "instances =
      (case list_resp w 4 (compartment_id config) (Some ''ACTIVE'') None of
             Inl e \<Rightarrow> []
           | Inr items \<Rightarrow> matching (display_name_prefix config) items)"
  using assms
  unfolding down_inventory_def io_bind_def io_return_def
  by (auto split: sum.splits prod.splits
      simp: list_active_instances_run eval_nat_numeral
      dest!: down_get_config_pure log_compartment_pure init_clients_trace)

text \<open>Runs of the inventory phase in the sample worlds.\<close>

lemma full_world_inventory:
  "up_inventory full_world [] =
    (Inr (calm_up_config, 5, 0),
     inventory_trace
       @ [ListContainerInstances (Some ''ocid1.compartment'') (Some ''CREATING'') None])"
  by (simp add: up_inventory_def config_defs io_defs full_world_def sample_defs
      count_active_instances_def count_creating_instances_def matching_def startswith_def)

lemma single_world_inventory:
  "down_inventory single_world [] = (Inr (calm_config, [inst_a]), inventory_trace)"
  by (simp add: down_inventory_def config_defs io_defs single_world_def sample_defs
      list_active_instances_def matching_def startswith_def)

lemma str_int_small: "str_int 1 = ''1''" "str_int 5 = ''5''" "str_int 8080 = ''8080''"
  by (simp_all add: str_int_def str_nat.simps digit_char_def)

section \<open>Fleet-size bounds\<close>

text \<open>
  Claim C1.  When the scale-up handler has read its two counts and the active count
  alone, or the sum of the active and the creating count, has reached
  \<open>max_instances\<close>, it returns \<open>skipped\<close> with the message
  \<^verbatim>\<open>Already at maximum instances (N)\<close>; when the scale-down handler has read the active
  instances and there are no more than \<open>min_instances\<close> of them, it returns
  \<open>skipped\<close> with the message \<^verbatim>\<open>Already at minimum instances (N)\<close>.  In both cases
  the trace ends with the inventory and holds no create, delete or backend call.
\<close>

theorem bounds_before_mutation:
  "(up_inventory w [] = (Inr (config, current_count, creating_count), tr)
      \<and> (max_instances config \<le> int current_count
           \<or> max_instances config \<le> int (current_count + creating_count)) \<longrightarrow>
      up_handler w =
        (Inr \<lparr> status = Skipped,
               message = ''Already at maximum instances ('' @ str_int (max_instances config)
                           @ '')'',
               details = [(''active_count'', PInt (int current_count)),
                          (''creating_count'', PInt (int creating_count)),
                          (''total_count'', PInt (int (current_count + creating_count)))] \<rparr>,
         tr)
      \<and> filter is_mutation tr = [])
   \<and> (down_inventory w [] = (Inr (dconfig, instances), dtr)
      \<and> int (length instances) \<le> min_instances dconfig \<longrightarrow>
      down_handler w =
        (Inr \<lparr> status = Skipped,
               message = ''Already at minimum instances ('' @ str_int (min_instances dconfig)
                           @ '')'',
               details = [(''current_count'', PInt (int (length instances)))] \<rparr>,
         dtr)
      \<and> filter is_mutation dtr = [])"
proof (intro conjI impI)
  assume up: "up_inventory w [] = (Inr (config, current_count, creating_count), tr)
      \<and> (max_instances config \<le> int current_count
           \<or> max_instances config \<le> int (current_count + creating_count))"
  then have full: "max_instances config \<le> int (current_count + creating_count)"
    by auto
  from up full show "up_handler w =
        (Inr \<lparr> status = Skipped,
               message = ''Already at maximum instances ('' @ str_int (max_instances config)
                           @ '')'',
               details = [(''active_count'', PInt (int current_count)),
                          (''creating_count'', PInt (int creating_count)),
                          (''total_count'', PInt (int (current_count + creating_count)))] \<rparr>,
         tr)"
    by (simp add: up_handler_def up_handler_try_def up_scale_def io_defs Let_def)
  from up have inv: "up_inventory w [] = (Inr (config, current_count, creating_count), tr)"
    by simp
  show "filter is_mutation tr = []"
    using up_inventory_trace(1) [OF inv] by simp
next
  assume down: "down_inventory w [] = (Inr (dconfig, instances), dtr)
      \<and> int (length instances) \<le> min_instances dconfig"
  then show "down_handler w =
        (Inr \<lparr> status = Skipped,
               message = ''Already at minimum instances ('' @ str_int (min_instances dconfig)
                           @ '')'',
               details = [(''current_count'', PInt (int (length instances)))] \<rparr>,
         dtr)"
    by (simp add: down_handler_def down_handler_try_def down_scale_def io_defs)
  from down have inv: "down_inventory w [] = (Inr (dconfig, instances), dtr)"
    by simp
  show "filter is_mutation dtr = []"
    using down_inventory_trace(1) [OF inv] by simp
qed

theorem bounds_before_mutation_witness:
  "up_handler full_world =
     (Inr \<lparr> status = Skipped, message = ''Already at maximum instances (5)'',
            details = [(''active_count'', PInt 5), (''creating_count'', PInt 0),
                       (''total_count'', PInt 5)] \<rparr>,
      inventory_trace
        @ [ListContainerInstances (Some ''ocid1.compartment'') (Some ''CREATING'') None])
   \<and> down_handler single_world =
     (Inr \<lparr> status = Skipped, message = ''Already at minimum instances (1)'',
            details = [(''current_count'', PInt 1)] \<rparr>,
      inventory_trace)"
  using bounds_before_mutation [where w = full_world and config = calm_up_config
      and current_count = 5 and creating_count = 0
      and tr = "inventory_trace
        @ [ListContainerInstances (Some ''ocid1.compartment'') (Some ''CREATING'') None]"]
    bounds_before_mutation [where w = single_world and dconfig = calm_config
      and instances = "[inst_a]" and dtr = inventory_trace]
    full_world_inventory single_world_inventory
  by (simp add: calm_up_config_def calm_config_def str_int_small)

section \<open>In-flight exclusion\<close>

lemma creating_world_inventory:
  "up_inventory creating_world [] =
    (Inr (calm_up_config, 1, 1),
     inventory_trace
       @ [ListContainerInstances (Some ''ocid1.compartment'') (Some ''CREATING'') None])"
  by (simp add: up_inventory_def config_defs io_defs creating_world_def sample_defs
      count_active_instances_def count_creating_instances_def matching_def startswith_def)

text \<open>
  Claim C2.  When the \<open>CREATING\<close> listing the scale-up handler reads shows at least
  one instance of the fleet, the handler returns \<open>skipped\<close> whatever the active count
  is, and its trace holds no create, delete or backend call.  The maximum rule comes
  first: with a creating instance, the message is the one about the maximum when the
  total has reached \<open>max_instances\<close>, and the one about a scale-up in progress
  otherwise.
\<close>

theorem in_flight_exclusion:
  "(up_inventory w [] = (Inr (config, current_count, creating_count), tr)
      \<and> list_resp w 5 (compartment_id config) (Some ''CREATING'') None = Inr items
      \<and> matching (display_name_prefix config) items \<noteq> [] \<longrightarrow>
      outcome (up_handler w) = Some Skipped
      \<and> snd (up_handler w) = tr
      \<and> filter is_mutation tr = [])
   \<and> (up_inventory w [] = (Inr (config, current_count, creating_count), tr)
      \<and> 0 < creating_count \<longrightarrow>
      up_handler w =
        (Inr (if max_instances config \<le> int (current_count + creating_count)
              then \<lparr> status = Skipped,
                     message = ''Already at maximum instances (''
                                 @ str_int (max_instances config) @ '')'',
                     details = [(''active_count'', PInt (int current_count)),
                                (''creating_count'', PInt (int creating_count)),
                                (''total_count'',
                                   PInt (int (current_count + creating_count)))] \<rparr>
              else \<lparr> status = Skipped,
                     message = ''Scale-up already in progress (''
                                 @ str_int (int creating_count)
                                 @ '' instances being created)'',
                     details = [(''active_count'', PInt (int current_count)),
                                (''creating_count'', PInt (int creating_count))] \<rparr>),
         tr))"
proof (intro conjI impI)
  assume listed: "up_inventory w [] = (Inr (config, current_count, creating_count), tr)
      \<and> list_resp w 5 (compartment_id config) (Some ''CREATING'') None = Inr items
      \<and> matching (display_name_prefix config) items \<noteq> []"
  then have inv: "up_inventory w [] = (Inr (config, current_count, creating_count), tr)"
    by simp
  from listed up_inventory_trace(3) [OF inv] have pos: "0 < creating_count"
    by simp
  from inv pos show "outcome (up_handler w) = Some Skipped"
    by (simp add: outcome_def up_handler_def up_handler_try_def up_scale_def io_defs Let_def)
  from inv pos show "snd (up_handler w) = tr"
    by (simp add: up_handler_def up_handler_try_def up_scale_def io_defs Let_def)
  show "filter is_mutation tr = []"
    using up_inventory_trace(1) [OF inv] by simp
next
  assume "up_inventory w [] = (Inr (config, current_count, creating_count), tr)
      \<and> 0 < creating_count"
  then show "up_handler w =
        (Inr (if max_instances config \<le> int (current_count + creating_count)
              then \<lparr> status = Skipped,
                     message = ''Already at maximum instances (''
                                 @ str_int (max_instances config) @ '')'',
                     details = [(''active_count'', PInt (int current_count)),
                                (''creating_count'', PInt (int creating_count)),
                                (''total_count'',
                                   PInt (int (current_count + creating_count)))] \<rparr>
              else \<lparr> status = Skipped,
                     message = ''Scale-up already in progress (''
                                 @ str_int (int creating_count)
                                 @ '' instances being created)'',
                     details = [(''active_count'', PInt (int current_count)),
                                (''creating_count'', PInt (int creating_count))] \<rparr>),
         tr)"
    by (simp add: up_handler_def up_handler_try_def up_scale_def io_defs Let_def)
qed

theorem in_flight_exclusion_witness:
  "outcome (up_handler creating_world) = Some Skipped
   \<and> up_handler creating_world =
     (Inr \<lparr> status = Skipped,
            message = ''Scale-up already in progress (1 instances being created)'',
            details = [(''active_count'', PInt 1), (''creating_count'', PInt 1)] \<rparr>,
      inventory_trace
        @ [ListContainerInstances (Some ''ocid1.compartment'') (Some ''CREATING'') None])"
proof -
  have listed: "list_resp creating_world 5 (compartment_id calm_up_config) (Some ''CREATING'')
      None = Inr [inst_c]"
    by (simp add: creating_world_def sample_defs)
  have found: "matching (display_name_prefix calm_up_config) [inst_c] \<noteq> []"
    by (simp add: matching_def startswith_def sample_defs)
  from in_flight_exclusion [where w = creating_world and config = calm_up_config
      and current_count = 1 and creating_count = 1 and items = "[inst_c]"
      and tr = "inventory_trace
        @ [ListContainerInstances (Some ''ocid1.compartment'') (Some ''CREATING'') None]"]
    creating_world_inventory listed found
  show ?thesis
    by (simp add: calm_up_config_def str_int_small outcome_def)
qed

section \<open>The handlers always return\<close>

lemma unsigned_world_up:
  "up_handler_try unsigned_world [] =
     (Inl (Foreign (OtherError ''Resource principals not available'')), [GetSigner])"
  by (simp add: up_handler_try_def up_inventory_def config_defs io_defs unsigned_world_def
      sample_defs)

lemma unsigned_world_down:
  "down_handler_try unsigned_world [] =
     (Inl (Foreign (OtherError ''Resource principals not available'')), [GetSigner])"
  by (simp add: down_handler_try_def down_inventory_def config_defs io_defs unsigned_world_def
      sample_defs)

text \<open>
  Claim C7.  In every world both handlers return a dictionary, whose status is
  \<open>success\<close>, \<open>skipped\<close> or \<open>error\<close>; and when the body of a handler raises,
  whatever the exception, the dictionary has status \<open>error\<close> and the text of the
  exception as its message.
\<close>

theorem handlers_always_return:
  "outcome (up_handler w) \<in> {Some Success, Some Skipped, Some Error}
   \<and> outcome (down_handler w) \<in> {Some Success, Some Skipped, Some Error}
   \<and> (up_handler_try w [] = (Inl e, tr) \<longrightarrow>
        up_handler w =
          (Inr \<lparr> status = Error, message = exn_str e,
                 details = [(''timestamp'', PTime (clock w (length tr)))] \<rparr>,
           tr @ [ReadClock]))
   \<and> (down_handler_try w [] = (Inl e, tr) \<longrightarrow>
        down_handler w =
          (Inr \<lparr> status = Error, message = exn_str e,
                 details = [(''timestamp'', PTime (clock w (length tr)))] \<rparr>,
           tr @ [ReadClock]))"
proof (intro conjI impI)
  show "outcome (up_handler w) \<in> {Some Success, Some Skipped, Some Error}"
  proof (cases "up_handler_try w []")
    case (Pair r tr')
    then show ?thesis
      by (cases r; cases "status (projr r)")
        (simp_all add: outcome_def up_handler_def error_result_def io_defs)
  qed
  show "outcome (down_handler w) \<in> {Some Success, Some Skipped, Some Error}"
  proof (cases "down_handler_try w []")
    case (Pair r tr')
    then show ?thesis
      by (cases r; cases "status (projr r)")
        (simp_all add: outcome_def down_handler_def error_result_def io_defs)
  qed
next
  assume "up_handler_try w [] = (Inl e, tr)"
  then show "up_handler w =
          (Inr \<lparr> status = Error, message = exn_str e,
                 details = [(''timestamp'', PTime (clock w (length tr)))] \<rparr>,
           tr @ [ReadClock])"
    by (simp add: up_handler_def error_result_def io_defs)
next
  assume "down_handler_try w [] = (Inl e, tr)"
  then show "down_handler w =
          (Inr \<lparr> status = Error, message = exn_str e,
                 details = [(''timestamp'', PTime (clock w (length tr)))] \<rparr>,
           tr @ [ReadClock])"
    by (simp add: down_handler_def error_result_def io_defs)
qed

theorem handlers_always_return_witness:
  "up_handler unsigned_world =
     (Inr \<lparr> status = Error, message = ''Resource principals not available'',
            details = [(''timestamp'', PTime 1000000000)] \<rparr>,
      [GetSigner, ReadClock])
   \<and> down_handler unsigned_world =
     (Inr \<lparr> status = Error, message = ''Resource principals not available'',
            details = [(''timestamp'', PTime 1000000000)] \<rparr>,
      [GetSigner, ReadClock])"
  using handlers_always_return [where w = unsigned_world and tr = "[GetSigner]"
      and e = "Foreign (OtherError ''Resource principals not available'')"]
    unsigned_world_up unsigned_world_down
  by (simp add: unsigned_world_def calm_world_def)

section \<open>Victim selection\<close>

text \<open>
  The head of a stably sorted list: it splits the input into the elements before it,
  all with a strictly larger key, and the elements after it, none with a smaller key.
\<close>

lemma sort_key_head:
  "xs \<noteq> [] \<Longrightarrow>
     \<exists>pre v post rest. xs = pre @ v # post \<and> sort_key f xs = v # rest
        \<and> (\<forall>x\<in>set pre. f v < f x) \<and> (\<forall>x\<in>set post. f v \<le> f x)"
proof (induction xs)
  case Nil
  then show ?case by simp
next
  case (Cons x xs)
  show ?case
  proof (cases "xs = []")
    case True
    have "x # xs = [] @ x # []"
      using True by simp
    moreover have "sort_key f (x # xs) = x # []"
      using True by simp
    ultimately show ?thesis
      by (metis empty_iff list.set(1))
  next
    case False
    with Cons.IH obtain pre v post rest where
      split: "xs = pre @ v # post" and sorted: "sort_key f xs = v # rest"
      and before: "\<forall>y\<in>set pre. f v < f y" and after: "\<forall>y\<in>set post. f v \<le> f y"
      by blast
    show ?thesis
    proof (cases "f x \<le> f v")
      case True
      have a: "x # xs = [] @ x # xs" by simp
      have b: "sort_key f (x # xs) = x # v # rest"
        using True sorted by simp
      have c: "\<forall>y\<in>set xs. f x \<le> f y"
      proof
        fix y assume "y \<in> set xs"
        then consider "y \<in> set pre" | "y = v" | "y \<in> set post"
          using split by auto
        then show "f x \<le> f y"
        proof cases
          case 1
          with before have "f v < f y" by simp
          with True show ?thesis by simp
        next
          case 2
          with True show ?thesis by simp
        next
          case 3
          with after have "f v \<le> f y" by simp
          with True show ?thesis by simp
        qed
      qed
      have d: "\<forall>y\<in>set ([]::'a list). f x < f y" by simp
      from a b c d show ?thesis by blast
    next
      case False
      have a: "x # xs = (x # pre) @ v # post"
        using split by simp
      have b: "sort_key f (x # xs) = v # insort_key f x rest"
        using False sorted by simp
      have c: "\<forall>y\<in>set (x # pre). f v < f y"
        using False before by auto
      from a b c after show ?thesis by blast
    qed
  qed
qed


lemma select_first_oldest:
  assumes "instances \<noteq> []"
  shows "\<exists>pre v post. instances = pre @ v # post
        \<and> select_instance_for_removal instances = Inr v
        \<and> (\<forall>x\<in>set pre. time_created v < time_created x)
        \<and> (\<forall>x\<in>set post. time_created v \<le> time_created x)"
proof -
  from sort_key_head [OF assms, of time_created] obtain pre v post rest where
    found: "instances = pre @ v # post" "sort_key time_created instances = v # rest"
    "\<forall>x\<in>set pre. time_created v < time_created x"
    "\<forall>x\<in>set post. time_created v \<le> time_created x"
    by blast
  from found(2) assms have "select_instance_for_removal instances = Inr v"
    by (simp add: select_instance_for_removal_def)
  with found(1,3,4) show ?thesis
    by blast
qed

lemma sample_selection:
  "select_instance_for_removal [inst_b, inst_c, inst_a] = Inr inst_c"
  by (simp add: select_instance_for_removal_def inst_a_def inst_b_def inst_c_def)

text \<open>
  Claim C5, as the code has it.  On a non-empty list the selected instance has the
  earliest creation timestamp, and among the instances that share that timestamp it is
  the one that comes first in the list the provider returned.
\<close>

theorem oldest_first_selection:
  "instances \<noteq> [] \<longrightarrow>
     (\<exists>pre v post. instances = pre @ v # post
        \<and> select_instance_for_removal instances = Inr v
        \<and> (\<forall>x\<in>set pre. time_created v < time_created x)
        \<and> (\<forall>x\<in>set post. time_created v \<le> time_created x))"
  using select_first_oldest by blast

theorem oldest_first_selection_witness:
  "select_instance_for_removal [inst_b, inst_c, inst_a] = Inr inst_c
   \<and> (\<exists>pre post. [inst_b, inst_c, inst_a] = pre @ inst_c # post)"
proof -
  have nonempty: "[inst_b, inst_c, inst_a] \<noteq> []"
    by simp
  from oldest_first_selection [of "[inst_b, inst_c, inst_a]"] nonempty obtain pre v post where
    "[inst_b, inst_c, inst_a] = pre @ v # post"
    "select_instance_for_removal [inst_b, inst_c, inst_a] = Inr v"
    by blast
  with sample_selection show ?thesis
    by auto
qed

text \<open>
  Claim C5 as stated fails on ties: of two instances created at the same time, the one
  listed first is selected although its identifier is the larger one.
\<close>

theorem tie_break_counterexample:
  "select_instance_for_removal [inst_b, inst_a] = Inr inst_b
   \<and> time_created inst_a = time_created inst_b
   \<and> inst_id inst_a < inst_id inst_b"
  by (simp add: select_instance_for_removal_def inst_a_def inst_b_def)

section \<open>The scaling phase of scale-down\<close>

text \<open>
  The best-effort block never raises; the deletion raises nothing but what the provider
  raised; and past the minimum rule the handler's result is decided by the deletion.
\<close>

lemma detach_backend_returns:
  "\<exists>ip tr'. detach_backend w config i tr = (Inr ip, tr')"
  by (simp add: detach_backend_def io_catch_def io_return_def split: prod.splits sum.splits)

lemma delete_poll_foreign:
  assumes "io_catch
             (io_bind (perform (GetContainerInstance i) r)
                (\<lambda>inst. io_return (lifecycle_state inst = ''DELETED'')))
             (\<lambda>e. case e of
                  Foreign (ServiceError st txt) \<Rightarrow>
                    if st = 404 then io_return True else io_return False
                | _ \<Rightarrow> io_raise e) tr = (Inl e, tr')"
  shows "\<exists>f. e = Foreign f"
  using assms
  by (auto simp: io_defs split: sum.splits exn.splits foreign_error.splits if_splits)

lemma delete_loop_foreign:
  "delete_loop w i mw el tr = (Inl e, tr') \<Longrightarrow> \<exists>f. e = Foreign f"
proof (induction w i mw el arbitrary: tr rule: delete_loop.induct)
  case (1 w i mw el)
  let ?poll = "io_catch
             (io_bind (perform (GetContainerInstance i) (\<lambda>n. get_resp w n i))
                (\<lambda>inst. io_return (lifecycle_state inst = ''DELETED'')))
             (\<lambda>e. case e of
                  Foreign (ServiceError st txt) \<Rightarrow>
                    if st = 404 then io_return True else io_return False
                | _ \<Rightarrow> io_raise e)"
  obtain r tr1 where polled: "?poll tr = (r, tr1)"
    by (cases "?poll tr")
  have running: "el < mw"
  proof (rule ccontr)
    assume "\<not> el < mw"
    with "1.prems" show False
      by (simp add: delete_loop.simps [of w i mw el] io_return_def)
  qed
  show ?case
  proof (cases r)
    case (Inl e')
    with polled running "1.prems" have "e = e'"
      by (simp add: delete_loop.simps [of w i mw el] io_bind_def)
    with polled Inl delete_poll_foreign show ?thesis
      by blast
  next
    case (Inr gone)
    show ?thesis
    proof (cases gone)
      case True
      with polled running Inr "1.prems" show ?thesis
        by (simp add: delete_loop.simps [of w i mw el] io_bind_def io_return_def)
    next
      case False
      with polled running Inr "1.prems"
      have "delete_loop w i mw (el + 10) (tr1 @ [Sleep 10]) = (Inl e, tr')"
        by (simp add: delete_loop.simps [of w i mw el] io_bind_def sleep_def perform_def)
      with "1.IH" [OF running False] show ?thesis
        by blast
    qed
  qed
qed


lemma reraise_unless_404:
  "(case e0 of
      Foreign (ServiceError st txt) \<Rightarrow> if st = 404 then io_return () else io_raise e0
    | _ \<Rightarrow> io_raise e0) tr0 = (Inl e, tr') \<Longrightarrow> e = e0"
  by (auto simp: io_defs split: exn.splits foreign_error.splits if_splits)

lemma delete_steps_foreign:
  "io_bind (perform (DeleteContainerInstance i) (\<lambda>n. delete_resp w n i))
     (\<lambda>_. io_bind (sleep 10) (\<lambda>_. delete_loop w i 120 0)) tr = (Inl e, tr')
   \<Longrightarrow> \<exists>f. e = Foreign f"
  by (auto simp: io_defs split: sum.splits dest: delete_loop_foreign)

lemma delete_container_instance_foreign:
  assumes "delete_container_instance w i tr = (Inl e, tr')"
  shows "\<exists>f. e = Foreign f"
proof -
  let ?steps = "io_bind (perform (DeleteContainerInstance i) (\<lambda>n. delete_resp w n i))
     (\<lambda>_. io_bind (sleep 10) (\<lambda>_. delete_loop w i 120 0))"
  obtain r0 tr0 where ran: "?steps tr = (r0, tr0)"
    by (cases "?steps tr")
  show ?thesis
  proof (cases r0)
    case (Inl e0)
    with ran assms have "e = e0"
      by (simp add: delete_container_instance_def io_catch_def reraise_unless_404)
    with ran Inl delete_steps_foreign show ?thesis
      by blast
  next
    case (Inr u)
    with ran assms show ?thesis
      by (simp add: delete_container_instance_def io_catch_def)
  qed
qed


lemma down_scale_proceeds:
  assumes "\<not> int (length instances) \<le> min_instances config"
    and "select_instance_for_removal instances = Inr v"
    and "detach_backend w config (inst_id v) tr = (Inr ip, tr1)"
    and "delete_container_instance w (inst_id v) tr1 = (r2, tr2)"
  shows "down_scale w config instances tr =
     (case r2 of
        Inl e \<Rightarrow> (Inl e, tr2)
      | Inr u \<Rightarrow>
          (Inr \<lparr> status = Success,
                 message = ''Container instance scaled down successfully'',
                 details = [(''instance_ocid'', PStr (inst_id v)),
                            (''instance_name'', PStr (display_name v)),
                            (''private_ip'', PStr ip),
                            (''total_instances'', PInt (int (length instances) - 1)),
                            (''timestamp'', PTime (clock w (length tr2)))] \<rparr>,
           tr2 @ [ReadClock]))"
  using assms
  by (simp add: down_scale_def io_bind_def io_return_def read_clock_def perform_def
      split: sum.splits)

lemma pair_world_inventory:
  "down_inventory pair_world [] = (Inr (calm_config, [inst_b, inst_a]), inventory_trace)"
  by (simp add: down_inventory_def config_defs io_defs pair_world_def sample_defs
      list_active_instances_def matching_def startswith_def)

lemma pair_selection: "select_instance_for_removal [inst_b, inst_a] = Inr inst_b"
  by (simp add: select_instance_for_removal_def inst_a_def inst_b_def)

text \<open>
  Claim C10.  With \<open>min_instances\<close> not negative, a list that passes the minimum rule
  is not empty and \<open>select_instance_for_removal\<close> returns an instance for it; and the
  body of the scale-down handler never ends with that function's exception
  \<^verbatim>\<open>No instances available for removal\<close>.
\<close>

theorem selection_never_on_empty:
  "(0 \<le> min_instances config \<and> \<not> int (length instances) \<le> min_instances config \<longrightarrow>
      instances \<noteq> [] \<and> (\<exists>v. select_instance_for_removal instances = Inr v))
   \<and> (down_inventory w [] = (Inr (config, instances), tr) \<and> 0 \<le> min_instances config \<longrightarrow>
      fst (down_handler_try w []) \<noteq> Inl (Exception ''No instances available for removal''))"
proof (intro conjI impI)
  assume "0 \<le> min_instances config \<and> \<not> int (length instances) \<le> min_instances config"
  then show "instances \<noteq> []"
    by auto
next
  assume "0 \<le> min_instances config \<and> \<not> int (length instances) \<le> min_instances config"
  then have "instances \<noteq> []"
    by auto
  from select_first_oldest [OF this]
  show "\<exists>v. select_instance_for_removal instances = Inr v"
    by blast
next
  assume reached: "down_inventory w [] = (Inr (config, instances), tr)
      \<and> 0 \<le> min_instances config"
  then have run: "down_handler_try w [] = down_scale w config instances tr"
    by (simp add: down_handler_try_def io_bind_def)
  show "fst (down_handler_try w []) \<noteq> Inl (Exception ''No instances available for removal'')"
  proof (cases "int (length instances) \<le> min_instances config")
    case True
    with run show ?thesis
      by (simp add: down_scale_def io_return_def)
  next
    case False
    with reached have "instances \<noteq> []"
      by auto
    from select_first_oldest [OF this] obtain v where
      chosen: "select_instance_for_removal instances = Inr v"
      by blast
    obtain ip tr1 where detached: "detach_backend w config (inst_id v) tr = (Inr ip, tr1)"
      using detach_backend_returns by blast
    obtain r2 tr2 where deleted: "delete_container_instance w (inst_id v) tr1 = (r2, tr2)"
      by (cases "delete_container_instance w (inst_id v) tr1")
    show ?thesis
    proof (cases r2)
      case (Inl e)
      with deleted delete_container_instance_foreign obtain f where "e = Foreign f"
        by blast
      with Inl run down_scale_proceeds [OF False chosen detached deleted] show ?thesis
        by simp
    next
      case (Inr u)
      with run down_scale_proceeds [OF False chosen detached deleted] show ?thesis
        by simp
    qed
  qed
qed

theorem selection_never_on_empty_witness:
  "select_instance_for_removal [inst_b, inst_a] = Inr inst_b
   \<and> fst (down_handler_try pair_world [])
        \<noteq> Inl (Exception ''No instances available for removal'')"
proof -
  have bounds: "0 \<le> min_instances calm_config
      \<and> \<not> int (length [inst_b, inst_a]) \<le> min_instances calm_config"
    by (simp add: calm_config_def)
  from selection_never_on_empty [where config = calm_config and instances = "[inst_b, inst_a]"
      and w = pair_world and tr = inventory_trace] bounds pair_world_inventory pair_selection
  show ?thesis
    by simp
qed

section \<open>Waiting for a lifecycle state\<close>

text \<open>
  One turn of the loop: past \<open>max_wait\<close> it raises; before, it reads the instance once,
  returns on the target state, and otherwise sleeps and goes on.
\<close>

lemma wait_loop_done:
  "\<not> elapsed < max_wait \<Longrightarrow>
     wait_loop w i t max_wait elapsed tr =
       (Inl (Exception (''Timeout waiting for instance to reach '' @ t @ '' state'')), tr)"
  by (simp add: wait_loop.simps [of w i t max_wait elapsed] io_raise_def)

lemma wait_loop_step:
  "elapsed < max_wait \<Longrightarrow>
     wait_loop w i t max_wait elapsed tr =
       (if (case get_resp w (length tr) i of
              Inl e \<Rightarrow> False
            | Inr inst \<Rightarrow> lifecycle_state inst = t)
        then (Inr True, tr @ [GetContainerInstance i])
        else wait_loop w i t max_wait (elapsed + 5) (tr @ [GetContainerInstance i, Sleep 5]))"
  by (simp add: wait_loop.simps [of w i t max_wait elapsed] io_defs split: sum.splits)

lemma wait_loop_results:
  "fst (wait_loop w i t max_wait elapsed tr) = Inr True
   \<or> fst (wait_loop w i t max_wait elapsed tr)
       = Inl (Exception (''Timeout waiting for instance to reach '' @ t @ '' state''))"
proof (induction w i t max_wait elapsed arbitrary: tr rule: wait_loop.induct)
  case (1 w i t max_wait elapsed)
  show ?case
  proof (cases "elapsed < max_wait")
    case False
    then show ?thesis
      by (simp add: wait_loop_done)
  next
    case True
    show ?thesis
    proof (cases "case get_resp w (length tr) i of
              Inl e \<Rightarrow> False
            | Inr inst \<Rightarrow> lifecycle_state inst = t")
      case reached: True
      with True show ?thesis
        by (simp add: wait_loop_step)
    next
      case waiting: False
      have "\<not> False"
        by simp
      from "1.IH" [OF True this, of "tr @ [GetContainerInstance i, Sleep 5]"]
      show ?thesis
        using True waiting by (simp add: wait_loop_step)
    qed
  qed
qed

lemma remaining_done: "\<not> elapsed < max_wait \<Longrightarrow> remaining max_wait elapsed = 0"
  by (simp add: remaining_def)

lemma remaining_step:
  "elapsed < max_wait \<Longrightarrow> remaining max_wait elapsed = Suc (remaining max_wait (elapsed + 5))"
  unfolding remaining_def by linarith

lemma wait_loop_poll:
  "elapsed < max_wait \<Longrightarrow>
     wait_loop w i t max_wait elapsed tr =
       (if shows_target w i t (length tr)
        then (Inr True, tr @ [GetContainerInstance i])
        else wait_loop w i t max_wait (elapsed + 5) (tr @ [GetContainerInstance i, Sleep 5]))"
  by (simp add: wait_loop_step shows_target_def)

lemma wait_loop_timeout:
  "(\<forall>k<remaining max_wait elapsed. \<not> shows_target w i t (length tr + 2 * k)) \<Longrightarrow>
   wait_loop w i t max_wait elapsed tr =
     (Inl (Exception (''Timeout waiting for instance to reach '' @ t @ '' state'')),
      tr @ concat (replicate (remaining max_wait elapsed) [GetContainerInstance i, Sleep 5]))"
proof (induction w i t max_wait elapsed arbitrary: tr rule: wait_loop.induct)
  case (1 w i t max_wait elapsed)
  show ?case
  proof (cases "elapsed < max_wait")
    case False
    then show ?thesis
      by (simp add: wait_loop_done remaining_done)
  next
    case True
    note more = remaining_step [OF True]
    from "1.prems" more have first: "\<not> shows_target w i t (length tr)"
      by (metis add.right_neutral mult_zero_right zero_less_Suc)
    have later: "\<forall>k<remaining max_wait (elapsed + 5).
        \<not> shows_target w i t (length (tr @ [GetContainerInstance i, Sleep 5]) + 2 * k)"
    proof (intro allI impI)
      fix k assume "k < remaining max_wait (elapsed + 5)"
      with more have "Suc k < remaining max_wait elapsed"
        by simp
      with "1.prems" have "\<not> shows_target w i t (length tr + 2 * Suc k)"
        by blast
      then show "\<not> shows_target w i t (length (tr @ [GetContainerInstance i, Sleep 5]) + 2 * k)"
        by simp
    qed
    have "\<not> False"
      by simp
    from "1.IH" [OF True this later] True first more show ?thesis
      by (simp add: wait_loop_poll)
  qed
qed

lemma wait_loop_reached:
  "k < remaining max_wait elapsed \<Longrightarrow>
   shows_target w i t (length tr + 2 * k) \<Longrightarrow>
   (\<forall>j<k. \<not> shows_target w i t (length tr + 2 * j)) \<Longrightarrow>
   wait_loop w i t max_wait elapsed tr =
     (Inr True,
      tr @ concat (replicate k [GetContainerInstance i, Sleep 5]) @ [GetContainerInstance i])"
proof (induction k arbitrary: elapsed tr)
  case 0
  then have "elapsed < max_wait"
    using remaining_done [of elapsed max_wait] by (cases "elapsed < max_wait") simp_all
  with 0 show ?case
    by (simp add: wait_loop_poll)
next
  case (Suc k)
  then have running: "elapsed < max_wait"
    using remaining_done [of elapsed max_wait] by (cases "elapsed < max_wait") simp_all
  from Suc.prems(3) have first: "\<not> shows_target w i t (length tr)"
    by (metis add.right_neutral mult_zero_right zero_less_Suc)
  from Suc.prems(1) remaining_step [OF running]
  have left: "k < remaining max_wait (elapsed + 5)"
    by simp
  from Suc.prems(2)
  have seen: "shows_target w i t (length (tr @ [GetContainerInstance i, Sleep 5]) + 2 * k)"
    by simp
  have before: "\<forall>j<k. \<not> shows_target w i t
      (length (tr @ [GetContainerInstance i, Sleep 5]) + 2 * j)"
  proof (intro allI impI)
    fix j assume "j < k"
    then have "Suc j < Suc k"
      by simp
    with Suc.prems(3) have "\<not> shows_target w i t (length tr + 2 * Suc j)"
      by blast
    then show "\<not> shows_target w i t (length (tr @ [GetContainerInstance i, Sleep 5]) + 2 * j)"
      by simp
  qed
  from Suc.IH [OF left seen before] running first show ?case
    by (simp add: wait_loop_poll)
qed

lemma remaining_start: "remaining max_wait 0 = polls max_wait"
  by (simp add: remaining_def polls_def)

text \<open>
  Claim C6, as the code has it.  \<open>wait_for_instance_state\<close> either returns \<open>True\<close> or
  raises \<^verbatim>\<open>Timeout waiting for instance to reach T state\<close>; it has no failure value.
  The reads are made two interactions apart, \<open>polls max_wait\<close> of them at most.  When
  none of those reads shows the target state, it raises after all of them, each followed
  by a sleep of five seconds, whatever the provider would answer later.  When read number
  \<open>k\<close> is the first that shows the target state, it returns \<open>True\<close> right after that
  read.
\<close>

theorem wait_for_state_outcomes:
  "fst (wait_for_instance_state w i t max_wait tr)
     \<in> {Inr True,
        Inl (Exception (''Timeout waiting for instance to reach '' @ t @ '' state''))}
   \<and> ((\<forall>k<polls max_wait. \<not> shows_target w i t (length tr + 2 * k)) \<longrightarrow>
        wait_for_instance_state w i t max_wait tr =
          (Inl (Exception (''Timeout waiting for instance to reach '' @ t @ '' state'')),
           tr @ concat (replicate (polls max_wait) [GetContainerInstance i, Sleep 5])))
   \<and> (k < polls max_wait \<and> shows_target w i t (length tr + 2 * k)
        \<and> (\<forall>j<k. \<not> shows_target w i t (length tr + 2 * j)) \<longrightarrow>
        wait_for_instance_state w i t max_wait tr =
          (Inr True,
           tr @ concat (replicate k [GetContainerInstance i, Sleep 5])
              @ [GetContainerInstance i]))"
proof (intro conjI impI)
  show "fst (wait_for_instance_state w i t max_wait tr)
     \<in> {Inr True,
        Inl (Exception (''Timeout waiting for instance to reach '' @ t @ '' state''))}"
    using wait_loop_results [of w i t max_wait 0 tr]
    by (auto simp: wait_for_instance_state_def)
next
  assume "\<forall>k<polls max_wait. \<not> shows_target w i t (length tr + 2 * k)"
  then have "\<forall>k<remaining max_wait 0. \<not> shows_target w i t (length tr + 2 * k)"
    by (simp add: remaining_start)
  from wait_loop_timeout [OF this]
  show "wait_for_instance_state w i t max_wait tr =
          (Inl (Exception (''Timeout waiting for instance to reach '' @ t @ '' state'')),
           tr @ concat (replicate (polls max_wait) [GetContainerInstance i, Sleep 5]))"
    by (simp add: wait_for_instance_state_def remaining_start)
next
  assume seen: "k < polls max_wait \<and> shows_target w i t (length tr + 2 * k)
        \<and> (\<forall>j<k. \<not> shows_target w i t (length tr + 2 * j))"
  then have "k < remaining max_wait 0"
    by (simp add: remaining_start)
  from wait_loop_reached [OF this] seen
  show "wait_for_instance_state w i t max_wait tr =
          (Inr True,
           tr @ concat (replicate k [GetContainerInstance i, Sleep 5])
              @ [GetContainerInstance i])"
    by (simp add: wait_for_instance_state_def)
qed

theorem wait_for_state_outcomes_witness:
  "wait_for_instance_state stuck_world ''ocid.c'' ''ACTIVE'' 10 [] =
     (Inl (Exception ''Timeout waiting for instance to reach ACTIVE state''),
      [GetContainerInstance ''ocid.c'', Sleep 5, GetContainerInstance ''ocid.c'', Sleep 5])
   \<and> wait_for_instance_state late_world ''ocid.c'' ''ACTIVE'' 300 [] =
     (Inr True,
      [GetContainerInstance ''ocid.c'', Sleep 5, GetContainerInstance ''ocid.c''])"
proof -
  have few: "polls 10 = Suc (Suc 0)" and many: "Suc 0 < polls 300"
    by (simp_all add: polls_def)
  have stuck: "\<forall>k<polls 10. \<not> shows_target stuck_world ''ocid.c'' ''ACTIVE''
      (length ([]::effect list) + 2 * k)"
    by (simp add: shows_target_def stuck_world_def calm_world_def inst_c_def)
  have late: "Suc 0 < polls 300
      \<and> shows_target late_world ''ocid.c'' ''ACTIVE'' (length ([]::effect list) + 2 * Suc 0)
      \<and> (\<forall>j<Suc 0. \<not> shows_target late_world ''ocid.c'' ''ACTIVE''
            (length ([]::effect list) + 2 * j))"
    by (simp add: many shows_target_def late_world_def calm_world_def inst_c_def)
  from wait_for_state_outcomes [where w = stuck_world and i = "''ocid.c''"
      and t = "''ACTIVE''" and max_wait = 10 and tr = "[]"] stuck
    wait_for_state_outcomes [where w = late_world and i = "''ocid.c''"
      and t = "''ACTIVE''" and max_wait = 300 and tr = "[]" and k = "Suc 0"] late
  show ?thesis
    by (simp add: few)
qed

text \<open>
  Claim C6 as stated fails: on an instance that stays in \<open>CREATING\<close> the wait ends with
  an exception, after the reads and sleeps that fit into \<open>max_wait\<close>, not with a
  returned failure.
\<close>

theorem wait_timeout_counterexample:
  "wait_for_instance_state stuck_world ''ocid.c'' ''ACTIVE'' 10 [] =
     (Inl (Exception ''Timeout waiting for instance to reach ACTIVE state''),
      [GetContainerInstance ''ocid.c'', Sleep 5, GetContainerInstance ''ocid.c'', Sleep 5])"
  by (simp add: wait_for_instance_state_def wait_loop_step wait_loop_done
      stuck_world_def calm_world_def inst_c_def)

section \<open>Every computation appends to the trace\<close>

lemma extendsI: "(\<And>tr. \<exists>more. snd (m tr) = tr @ more) \<Longrightarrow> extends m"
  by (simp add: extends_def)

lemma extendsD: "extends m \<Longrightarrow> \<exists>more. snd (m tr) = tr @ more"
  by (simp add: extends_def)

lemma extends_return: "extends (io_return x)"
  by (simp add: extends_def io_return_def)

lemma extends_raise: "extends (io_raise e)"
  by (simp add: extends_def io_raise_def)

lemma extends_perform: "extends (perform ef resp)"
  by (simp add: extends_def perform_def)

lemma extends_sleep: "extends (sleep n)"
  by (simp add: sleep_def extends_perform)

lemma extends_read_clock: "extends (read_clock w)"
  by (simp add: read_clock_def extends_perform)

lemma extends_bind:
  assumes "extends m" and "\<And>x. extends (f x)"
  shows "extends (io_bind m f)"
proof (rule extendsI)
  fix tr
  obtain r tr1 where ran: "m tr = (r, tr1)"
    by (cases "m tr")
  with extendsD [OF assms(1), of tr] obtain more where first: "tr1 = tr @ more"
    by auto
  show "\<exists>more. snd (io_bind m f tr) = tr @ more"
  proof (cases r)
    case (Inl e)
    with ran first show ?thesis
      by (simp add: io_bind_def)
  next
    case (Inr x)
    from extendsD [OF assms(2), of x tr1] obtain more2 where "snd (f x tr1) = tr1 @ more2"
      by auto
    with ran first Inr show ?thesis
      by (simp add: io_bind_def)
  qed
qed

lemma extends_catch:
  assumes "extends m" and "\<And>e. extends (h e)"
  shows "extends (io_catch m h)"
proof (rule extendsI)
  fix tr
  obtain r tr1 where ran: "m tr = (r, tr1)"
    by (cases "m tr")
  with extendsD [OF assms(1), of tr] obtain more where first: "tr1 = tr @ more"
    by auto
  show "\<exists>more. snd (io_catch m h tr) = tr @ more"
  proof (cases r)
    case (Inr x)
    with ran first show ?thesis
      by (simp add: io_catch_def)
  next
    case (Inl e)
    from extendsD [OF assms(2), of e tr1] obtain more2 where "snd (h e tr1) = tr1 @ more2"
      by auto
    with ran first Inl show ?thesis
      by (simp add: io_catch_def)
  qed
qed

lemmas extends_intros = extends_return extends_raise extends_perform extends_sleep
  extends_read_clock extends_bind extends_catch








lemma extends_delete_loop: "extends (delete_loop w i max_wait elapsed)"
proof (induction w i max_wait elapsed rule: delete_loop.induct)
  case (1 w i max_wait elapsed)
  show ?case
  proof (cases "elapsed < max_wait")
    case False
    then show ?thesis
      by (simp add: delete_loop.simps [of w i max_wait elapsed] extends_return)
  next
    case True
    have tail: "extends (if gone then io_return ()
             else io_bind (sleep 10) (\<lambda>_. delete_loop w i max_wait (elapsed + 10)))"
      for gone
      using "1.IH" [OF True, of gone] by (auto intro!: extends_intros)
    have handler: "extends (case e of
                  Foreign (ServiceError st txt) \<Rightarrow>
                    if st = 404 then io_return True else io_return False
                | _ \<Rightarrow> io_raise e)" for e
      by (auto intro!: extends_intros split: exn.splits foreign_error.splits)
    from True tail handler show ?thesis
      by (simp add: delete_loop.simps [of w i max_wait elapsed])
        (intro extends_intros, simp_all)
  qed
qed

lemma extends_reraise_unless_404:
  "extends (case e of
      Foreign (ServiceError st txt) \<Rightarrow> if st = 404 then io_return () else io_raise e
    | _ \<Rightarrow> io_raise e)"
  by (auto intro!: extends_intros split: exn.splits foreign_error.splits)


lemma perform_then:
  assumes "\<And>x. extends (f x)"
  shows "\<exists>rest. snd (io_bind (perform ef resp) f tr) = tr @ ef # rest"
proof (cases "resp (length tr)")
  case (Inl e)
  then show ?thesis
    by (simp add: io_bind_def perform_def)
next
  case (Inr x)
  from extendsD [OF assms, of x "tr @ [ef]"] obtain more where
    "snd (f x (tr @ [ef])) = (tr @ [ef]) @ more"
    by auto
  with Inr show ?thesis
    by (simp add: io_bind_def perform_def)
qed

lemma catch_keeps_prefix:
  assumes "snd (m tr) = pre @ rest" and "\<And>e. extends (h e)"
  shows "\<exists>rest'. snd (io_catch m h tr) = pre @ rest'"
proof -
  obtain r tr1 where ran: "m tr = (r, tr1)"
    by (cases "m tr")
  with assms(1) have first: "tr1 = pre @ rest"
    by simp
  show ?thesis
  proof (cases r)
    case (Inr x)
    with ran first show ?thesis
      by (simp add: io_catch_def)
  next
    case (Inl e)
    from extendsD [OF assms(2), of e tr1] obtain more where "snd (h e tr1) = tr1 @ more"
      by auto
    with ran first Inl show ?thesis
      by (simp add: io_catch_def)
  qed
qed


lemma delete_container_instance_issued:
  "\<exists>rest. snd (delete_container_instance w i tr) = tr @ DeleteContainerInstance i # rest"
proof -
  let ?steps = "io_bind (perform (DeleteContainerInstance i) (\<lambda>n. delete_resp w n i))
          (\<lambda>_. io_bind (sleep 10) (\<lambda>_. delete_loop w i 120 0))"
  let ?handler = "\<lambda>e. case e of
            Foreign (ServiceError st txt) \<Rightarrow> if st = 404 then io_return () else io_raise e
          | _ \<Rightarrow> io_raise e"
  have "\<exists>rest. snd (?steps tr) = tr @ DeleteContainerInstance i # rest"
    by (intro perform_then extends_intros extends_delete_loop)
  then obtain rest where ran: "snd (?steps tr) = (tr @ [DeleteContainerInstance i]) @ rest"
    by auto
  have "\<exists>rest'. snd (io_catch ?steps ?handler tr) = (tr @ [DeleteContainerInstance i]) @ rest'"
    using ran extends_reraise_unless_404
    by (rule catch_keeps_prefix [where m = ?steps and h = ?handler])
  then show ?thesis
    by (simp add: delete_container_instance_def)
qed

section \<open>Best-effort detachment\<close>

text \<open>
  Resolving the address makes no mutating call; when it raises, the best-effort block
  yields \<^verbatim>\<open>"unknown"\<close> at once.
\<close>

lemma read_private_ip_quiet:
  "read_private_ip w i tr = (r, tr1) \<Longrightarrow> filter is_mutation tr1 = filter is_mutation tr"
  unfolding read_private_ip_def io_defs
  by (auto split: sum.splits list.splits option.splits if_splits)

lemma down_get_instance_private_ip_quiet:
  assumes "down_get_instance_private_ip w i tr = (r, tr1)"
  shows "filter is_mutation tr1 = filter is_mutation tr"
proof -
  obtain r0 tr0 where ran: "read_private_ip w i tr = (r0, tr0)"
    by (cases "read_private_ip w i tr")
  with assms have "tr1 = tr0"
    by (auto simp: down_get_instance_private_ip_def io_defs split: sum.splits option.splits)
  with read_private_ip_quiet [OF ran] show ?thesis
    by simp
qed

lemma detach_unknown:
  "down_get_instance_private_ip w i tr = (Inl e, tr1) \<Longrightarrow>
     detach_backend w config i tr = (Inr ''unknown'', tr1)"
  by (simp add: detach_backend_def io_defs)


lemma down_handler_past_minimum:
  assumes "down_inventory w [] = (Inr (config, instances), tr)"
    and "\<not> int (length instances) \<le> min_instances config"
    and "select_instance_for_removal instances = Inr v"
    and "detach_backend w config (inst_id v) tr = (Inr ip, tr1)"
    and "delete_container_instance w (inst_id v) tr1 = (r2, tr2)"
  shows "down_handler w =
     (Inr (case r2 of
        Inl e \<Rightarrow>
          \<lparr> status = Error, message = exn_str e,
            details = [(''timestamp'', PTime (clock w (length tr2)))] \<rparr>
      | Inr u \<Rightarrow>
          \<lparr> status = Success,
            message = ''Container instance scaled down successfully'',
            details = [(''instance_ocid'', PStr (inst_id v)),
                       (''instance_name'', PStr (display_name v)),
                       (''private_ip'', PStr ip),
                       (''total_instances'', PInt (int (length instances) - 1)),
                       (''timestamp'', PTime (clock w (length tr2)))] \<rparr>),
      tr2 @ [ReadClock])"
proof -
  from assms(1) have "down_handler_try w [] = down_scale w config instances tr"
    by (simp add: down_handler_try_def io_bind_def)
  with down_scale_proceeds [OF assms(2-5)] show ?thesis
    by (simp add: down_handler_def io_catch_def error_result_def io_bind_def io_return_def
        read_clock_def perform_def split: sum.splits)
qed

lemma pair_world_resolution:
  "down_get_instance_private_ip pair_world ''ocid.b'' inventory_trace =
     (Inl (Exception ''Failed to retrieve private IP address''),
      inventory_trace @ [GetContainerInstance ''ocid.b''])"
  by (simp add: down_get_instance_private_ip_def read_private_ip_def io_defs pair_world_def
      calm_world_def)

lemma pair_world_deletion:
  "delete_container_instance pair_world ''ocid.b''
       (inventory_trace @ [GetContainerInstance ''ocid.b'']) =
     (Inr (),
      inventory_trace @ [GetContainerInstance ''ocid.b'', DeleteContainerInstance ''ocid.b'',
                         Sleep 10, GetContainerInstance ''ocid.b''])"
  by (simp add: delete_container_instance_def delete_loop.simps [of _ _ 120 0] io_defs
      pair_world_def calm_world_def)

text \<open>
  Claim C9, as the code has it.  Past the minimum rule, with \<open>v\<close> the selected
  instance: the best-effort block always ends without an exception, and the deletion of
  \<open>v\<close> is the call that follows it, so no failure to resolve the address or to remove
  the backend stops the deletion from being requested.  When the resolution raises, the
  block yields \<^verbatim>\<open>"unknown"\<close> and no mutating call has been made up to then (the
  backend removal is skipped).  When moreover the deletion returns, the handler returns
  \<open>success\<close> with \<^verbatim>\<open>private_ip = "unknown"\<close>.
\<close>

theorem best_effort_detach:
  "(down_inventory w [] = (Inr (config, instances), tr)
      \<and> \<not> int (length instances) \<le> min_instances config
      \<and> select_instance_for_removal instances = Inr v \<longrightarrow>
      (\<exists>ip tr1 rest. detach_backend w config (inst_id v) tr = (Inr ip, tr1)
          \<and> snd (down_handler w) = tr1 @ DeleteContainerInstance (inst_id v) # rest))
   \<and> (down_inventory w [] = (Inr (config, instances), tr)
      \<and> \<not> int (length instances) \<le> min_instances config
      \<and> select_instance_for_removal instances = Inr v
      \<and> down_get_instance_private_ip w (inst_id v) tr = (Inl e, tr1) \<longrightarrow>
      detach_backend w config (inst_id v) tr = (Inr ''unknown'', tr1)
      \<and> filter is_mutation tr1 = [])
   \<and> (down_inventory w [] = (Inr (config, instances), tr)
      \<and> \<not> int (length instances) \<le> min_instances config
      \<and> select_instance_for_removal instances = Inr v
      \<and> down_get_instance_private_ip w (inst_id v) tr = (Inl e, tr1)
      \<and> delete_container_instance w (inst_id v) tr1 = (Inr u, tr2) \<longrightarrow>
      down_handler w =
        (Inr \<lparr> status = Success,
               message = ''Container instance scaled down successfully'',
               details = [(''instance_ocid'', PStr (inst_id v)),
                          (''instance_name'', PStr (display_name v)),
                          (''private_ip'', PStr ''unknown''),
                          (''total_instances'', PInt (int (length instances) - 1)),
                          (''timestamp'', PTime (clock w (length tr2)))] \<rparr>,
         tr2 @ [ReadClock]))"
proof (intro conjI impI)
  assume past: "down_inventory w [] = (Inr (config, instances), tr)
      \<and> \<not> int (length instances) \<le> min_instances config
      \<and> select_instance_for_removal instances = Inr v"
  obtain ip tr1 where detached: "detach_backend w config (inst_id v) tr = (Inr ip, tr1)"
    using detach_backend_returns by blast
  obtain r2 tr2 where deleted: "delete_container_instance w (inst_id v) tr1 = (r2, tr2)"
    by (cases "delete_container_instance w (inst_id v) tr1")
  from delete_container_instance_issued [of w "inst_id v" tr1] deleted obtain rest where
    issued: "tr2 = tr1 @ DeleteContainerInstance (inst_id v) # rest"
    by auto
  from past detached deleted have "snd (down_handler w) = tr2 @ [ReadClock]"
    by (simp add: down_handler_past_minimum)
  with issued have "snd (down_handler w)
      = tr1 @ DeleteContainerInstance (inst_id v) # (rest @ [ReadClock])"
    by simp
  with detached show "\<exists>ip tr1 rest. detach_backend w config (inst_id v) tr = (Inr ip, tr1)
          \<and> snd (down_handler w) = tr1 @ DeleteContainerInstance (inst_id v) # rest"
    by blast
next
  assume failed: "down_inventory w [] = (Inr (config, instances), tr)
      \<and> \<not> int (length instances) \<le> min_instances config
      \<and> select_instance_for_removal instances = Inr v
      \<and> down_get_instance_private_ip w (inst_id v) tr = (Inl e, tr1)"
  then show "detach_backend w config (inst_id v) tr = (Inr ''unknown'', tr1)"
    by (simp add: detach_unknown)
  from failed have inv: "down_inventory w [] = (Inr (config, instances), tr)"
    and res: "down_get_instance_private_ip w (inst_id v) tr = (Inl e, tr1)"
    by simp_all
  from down_get_instance_private_ip_quiet [OF res] down_inventory_trace(1) [OF inv]
  show "filter is_mutation tr1 = []"
    by simp
next
  assume finished: "down_inventory w [] = (Inr (config, instances), tr)
      \<and> \<not> int (length instances) \<le> min_instances config
      \<and> select_instance_for_removal instances = Inr v
      \<and> down_get_instance_private_ip w (inst_id v) tr = (Inl e, tr1)
      \<and> delete_container_instance w (inst_id v) tr1 = (Inr u, tr2)"
  then have "detach_backend w config (inst_id v) tr = (Inr ''unknown'', tr1)"
    by (simp add: detach_unknown)
  with finished show "down_handler w =
        (Inr \<lparr> status = Success,
               message = ''Container instance scaled down successfully'',
               details = [(''instance_ocid'', PStr (inst_id v)),
                          (''instance_name'', PStr (display_name v)),
                          (''private_ip'', PStr ''unknown''),
                          (''total_instances'', PInt (int (length instances) - 1)),
                          (''timestamp'', PTime (clock w (length tr2)))] \<rparr>,
         tr2 @ [ReadClock])"
    by (simp add: down_handler_past_minimum)
qed

theorem best_effort_detach_witness:
  "down_handler pair_world =
     (Inr \<lparr> status = Success,
            message = ''Container instance scaled down successfully'',
            details = [(''instance_ocid'', PStr ''ocid.b''),
                       (''instance_name'', PStr ''autoscaling-demo-instance-900b''),
                       (''private_ip'', PStr ''unknown''),
                       (''total_instances'', PInt 1),
                       (''timestamp'', PTime 1000000000)] \<rparr>,
      inventory_trace @ [GetContainerInstance ''ocid.b'', DeleteContainerInstance ''ocid.b'',
                         Sleep 10, GetContainerInstance ''ocid.b'', ReadClock])"
proof -
  have past: "\<not> int (length [inst_b, inst_a]) \<le> min_instances calm_config"
    by (simp add: calm_config_def)
  have victim: "inst_id inst_b = ''ocid.b''"
    by (simp add: inst_b_def)
  from best_effort_detach [where w = pair_world and config = calm_config
      and instances = "[inst_b, inst_a]" and tr = inventory_trace and v = inst_b
      and e = "Exception ''Failed to retrieve private IP address''"
      and ?tr1.0 = "inventory_trace @ [GetContainerInstance ''ocid.b'']"
      and u = "()"
      and ?tr2.0 = "inventory_trace @ [GetContainerInstance ''ocid.b'',
                         DeleteContainerInstance ''ocid.b'',
                         Sleep 10, GetContainerInstance ''ocid.b'']"]
    pair_world_inventory pair_selection past pair_world_resolution pair_world_deletion
  show ?thesis
    by (simp add: victim inst_b_def pair_world_def calm_world_def)
qed

text \<open>
  Claim C9 as stated fails when the deletion itself raises: the resolution raises, the
  deletion is requested and answered with a 500, and the handler returns \<open>error\<close>, not
  \<open>success\<close>.
\<close>

theorem failed_deletion_counterexample:
  "down_get_instance_private_ip pair_undeletable_world ''ocid.b'' inventory_trace =
     (Inl (Exception ''Failed to retrieve private IP address''),
      inventory_trace @ [GetContainerInstance ''ocid.b''])
   \<and> down_handler pair_undeletable_world =
     (Inr \<lparr> status = Error, message = ''InternalServerError'',
            details = [(''timestamp'', PTime 1000000000)] \<rparr>,
      inventory_trace @ [GetContainerInstance ''ocid.b'', DeleteContainerInstance ''ocid.b'',
                         ReadClock])"
  by (simp add: down_handler_def down_handler_try_def down_inventory_def down_scale_def
      detach_backend_def down_get_instance_private_ip_def read_private_ip_def
      delete_container_instance_def list_active_instances_def matching_def startswith_def
      select_instance_for_removal_def error_result_def
      config_defs io_defs pair_undeletable_world_def pair_world_def sample_defs)

section \<open>Cooldown\<close>





















section \<open>Read errors\<close>




end
